theory Spec2Isabelle
  imports Main "HOL-Library.Word"
begin

section \<open>Errors, panics and outcomes\<close>

text \<open>
  Go \<^verbatim>\<open>error\<close> values. The constructors name the errors that the source itself builds
  (\<^verbatim>\<open>samlstrategy.ErrAPIFlowNotSupported\<close>, \<^verbatim>\<open>herodot.ErrBadRequest.WithReason\<close>,
  \<^verbatim>\<open>herodot.ErrInternalServerError.WithReasonf\<close>, \<^verbatim>\<open>errors.Wrapf\<close>) and the one it tests
  for with \<^verbatim>\<open>errors.As\<close> (\<^verbatim>\<open>session.ErrNoActiveSessionFound\<close>); every other error a
  collaborator hands back is an \<open>OtherError\<close> carrying its message. \<open>ErrInternalServerError\<close>
  keeps the reason's format string and the error formatted into it; \<open>ErrWrapped\<close> is
  \<^verbatim>\<open>errors.Wrapf(err, msg)\<close>, which \<^verbatim>\<open>errors.As\<close> looks through.
\<close>

datatype error =
    ErrAPIFlowNotSupported
  | ErrBadRequest string
  | ErrInternalServerError string error
  | ErrNoActiveSessionFound
  | ErrWrapped string error
  | OtherError string

text \<open>
  A Go function either returns or panics. The run-time panics the modelled code can raise
  by itself: the dereference of a nil pointer, an index outside a slice or string, a failed
  single-valued type assertion, and the explicit \<^verbatim>\<open>panic(...)\<close> of \<^verbatim>\<open>mustParseCertificate\<close>.
\<close>

datatype panic =
    NilPointerDereference
  | IndexOutOfRange
  | TypeAssertionFailed
  | ExplicitPanic string
  | PanicWithError error

datatype 'a outcome = Returned 'a | Panicked panic

section \<open>Assertions and attribute extraction\<close>

text \<open>
  The parts of \<^verbatim>\<open>saml.Assertion\<close> that \<^verbatim>\<open>getAttributesFromAssertion\<close> reads:
  \<^verbatim>\<open>assertion.AttributeStatements[i].Attributes[j]\<close> with its \<^verbatim>\<open>FriendlyName\<close>,
  \<^verbatim>\<open>Name\<close> and \<^verbatim>\<open>Values[k].Value\<close>.
\<close>

record attribute_value =
  Value :: string

record attribute =
  FriendlyName :: string
  Name :: string
  Values :: "attribute_value list"

record attribute_statement =
  Attributes :: "attribute list"

record assertion =
  AttributeStatements :: "attribute_statement list"

text \<open>\<^verbatim>\<open>map[string][]string\<close>: a key that was never written is absent.\<close>

type_synonym attributes = "string \<rightharpoonup> string list"

text \<open>Reading a key of a Go map of slices gives the nil slice when the key is missing.\<close>

definition lookup :: "attributes \<Rightarrow> string \<Rightarrow> string list" where
  "lookup m k = (case m k of None \<Rightarrow> [] | Some vs \<Rightarrow> vs)"

text \<open>
  \<^verbatim>\<open>attributes[claimName] = append(attributes[claimName], value.Value)\<close> starts a new list
  for a new key and extends the list of a known one.
\<close>

definition append_value :: "string \<Rightarrow> string \<Rightarrow> attributes \<Rightarrow> attributes" where
  "append_value k v m = m(k \<mapsto> lookup m k @ [v])"

text \<open>\<^verbatim>\<open>for _, value := range attr.Values { ... }\<close>\<close>

fun range_values :: "string \<Rightarrow> attribute_value list \<Rightarrow> attributes \<Rightarrow> attributes" where
  "range_values k [] m = m"
| "range_values k (v # vs) m = range_values k vs (append_value k (Value v) m)"

text \<open>
  \<^verbatim>\<open>claimName := attr.FriendlyName; if claimName == "" { claimName = attr.Name }\<close>
\<close>

definition claimName :: "attribute \<Rightarrow> string" where
  "claimName attr = (if FriendlyName attr = [] then Name attr else FriendlyName attr)"

text \<open>\<^verbatim>\<open>for _, attr := range attributeStatement.Attributes { ... }\<close>\<close>

fun range_attributes :: "attribute list \<Rightarrow> attributes \<Rightarrow> attributes" where
  "range_attributes [] m = m"
| "range_attributes (attr # as) m =
     range_attributes as (range_values (claimName attr) (Values attr) m)"

text \<open>\<^verbatim>\<open>for _, attributeStatement := range assertion.AttributeStatements { ... }\<close>\<close>

fun range_statements :: "attribute_statement list \<Rightarrow> attributes \<Rightarrow> attributes" where
  "range_statements [] m = m"
| "range_statements (st # sts) m = range_statements sts (range_attributes (Attributes st) m)"

section \<open>The SAML middleware\<close>

text \<open>
  \<^verbatim>\<open>url.URL\<close>: the text it was parsed from (what \<^verbatim>\<open>String()\<close> gives back) and its
  \<^verbatim>\<open>Path\<close> field.
\<close>

record url =
  url_String :: string
  url_Path :: string

record tracked_request =
  SAMLRequestID :: string

text \<open>
  \<^verbatim>\<open>samlsp.Middleware\<close>, with the fields of its \<^verbatim>\<open>ServiceProvider\<close> that the source reads or
  writes. \<^verbatim>\<open>RequestTracker.GetTrackedRequests(r)\<close> and \<^verbatim>\<open>ServiceProvider.ParseResponse(r, ids)\<close>
  belong to the external SAML engine: for the request at hand, the first is the list it
  gives and the second a function of the accepted request ids.
\<close>

record middleware =
  AllowIDPInitiated :: bool
  GetTrackedRequests :: "tracked_request list"
  ParseResponse :: "string list \<Rightarrow> error + assertion"
  AcsURL :: url
  MetadataURL :: url
  EntityID :: string
  AuthnNameIDFormat :: string
  DefaultRedirectURI :: string

section \<open>Flows and their UI\<close>

type_synonym uuid = "128 word"

datatype flow_type = TypeBrowser | TypeAPI

datatype node_group = SAMLGroup | OpenIDConnectGroup | OtherGroup string

datatype message = InfoRegistrationContinue | OtherMessage string

text \<open>
  A UI node is either the submit input that continues with a provider, labelled with a
  message, or an input field of a group with its name and value.
\<close>

datatype node =
    ProviderNode string message
  | InputNode node_group string string

record container =
  Nodes :: "node list"
  CSRF :: string

record flow_base =
  ID :: uuid
  Type :: flow_type

record login_flow = flow_base +
  login_UI :: container

record registration_flow = flow_base +
  UI :: container

record settings_flow = flow_base +
  IdentityID :: uuid

record session =
  session_IdentityID :: uuid

text \<open>
  A value of the interface \<^verbatim>\<open>flow.Flow\<close>: the nil interface, or a pointer of one of the three
  flow types, which may itself be the nil pointer (\<open>None\<close>).
\<close>

datatype flow_iface =
    NilFlow
  | LoginFlow "login_flow option"
  | RegistrationFlow "registration_flow option"
  | SettingsFlow "settings_flow option"

section \<open>Responses\<close>

text \<open>
  The collaborators' calls that write to the \<^verbatim>\<open>http.ResponseWriter\<close>, in the order a
  handler makes them. A nil \<^verbatim>\<open>error\<close> or a nil pointer argument is \<open>None\<close>.
\<close>

datatype effect =
    OnError "error option"
  | LoginWriteFlowError "login_flow option" error
  | RegistrationWriteFlowError "registration_flow option" error
  | Forward "error option"
  | HandleStartAuthFlow
  | Redirect string
  | CreateSessionFromAssertion "assertion option" string

section \<open>\<^verbatim>\<open>getAttributesFromAssertion\<close>\<close>

text \<open>
  \<^verbatim>\<open>possibleRequestIDs\<close>: the empty id first when IDP-initiated responses are allowed, then
  the id of every tracked request.
\<close>

definition possibleRequestIDs :: "middleware \<Rightarrow> string list" where
  "possibleRequestIDs m =
     (if AllowIDPInitiated m then [[]] else []) @ map SAMLRequestID (GetTrackedRequests m)"

definition getAttributesFromAssertion :: "middleware \<Rightarrow> effect list \<times> (error + attributes)" where
  "getAttributesFromAssertion m =
     (case ParseResponse m (possibleRequestIDs m) of
        Inl err \<Rightarrow> ([OnError (Some err)], Inl err)
      | Inr a \<Rightarrow> ([], Inr (range_statements (AttributeStatements a) Map.empty)))"

section \<open>\<^verbatim>\<open>forwardError\<close> and \<^verbatim>\<open>handleError\<close>\<close>

text \<open>
  The type switch of \<^verbatim>\<open>forwardError\<close>: a \<^verbatim>\<open>*login.Flow\<close> goes to the login error handler, a
  \<^verbatim>\<open>*registration.Flow\<close> to the registration error handler, anything else (a settings
  flow, the nil interface) to the login error handler with a nil flow.
\<close>

fun forwardError :: "flow_iface \<Rightarrow> error \<Rightarrow> effect" where
  "forwardError (LoginFlow ff) err = LoginWriteFlowError ff err"
| "forwardError (RegistrationFlow ff) err = RegistrationWriteFlowError ff err"
| "forwardError (SettingsFlow ff) err = LoginWriteFlowError None err"
| "forwardError NilFlow err = LoginWriteFlowError None err"

text \<open>
  Modelled from the spec: \<^verbatim>\<open>container.SetCSRF\<close> (package \<^verbatim>\<open>ui/container\<close>) is not among the
  sources. The spec's flow carries a CSRF token next to its UI nodes and the error
  responder "reissues a fresh CSRF token": the call stores the token it is given.
\<close>

definition SetCSRF :: "container \<Rightarrow> string \<Rightarrow> container" where
  "SetCSRF c token = c\<lparr>CSRF := token\<rparr>"

text \<open>
  Modelled from the spec: \<^verbatim>\<open>AddProvider\<close> (another file of package \<^verbatim>\<open>strategy\<close>) is not among
  the sources. The spec's error responder "appends exactly one continue-with-provider
  affordance": one provider node, labelled with the message, after the nodes present.
\<close>

definition AddProvider :: "container \<Rightarrow> string \<Rightarrow> message \<Rightarrow> container" where
  "AddProvider c providerID msg = c\<lparr>Nodes := Nodes c @ [ProviderNode providerID msg]\<rparr>"

text \<open>
  Modelled from the spec: \<^verbatim>\<open>container.NodesFromJSONSchema\<close> is not among the sources. The
  spec "regenerates trait input nodes from the tenant's identity schema": loading the
  schema either fails or gives the paths of its trait fields, and every path becomes one
  empty input node of the group, its name prefixed when a prefix is given.
\<close>

definition NodesFromJSONSchema ::
  "node_group \<Rightarrow> (error + string list) \<Rightarrow> string \<Rightarrow> error + node list" where
  "NodesFromJSONSchema g schema prefix =
     (case schema of
        Inl err \<Rightarrow> Inl err
      | Inr paths \<Rightarrow>
          Inr (map (\<lambda>p. InputNode g (if prefix = [] then p else prefix @ ''.'' @ p) []) paths))"

text \<open>
  Modelled from the spec: \<^verbatim>\<open>container.UpdateNodeValuesFromJSON\<close> is not among the sources.
  The spec "pre-populates" the trait nodes "from that staged data": the staged traits are
  the pairs of a field's path and its value, and an input node of the group whose name is
  the prefixed path of a staged field takes that field's value.
\<close>

fun populate :: "(string \<times> string) list \<Rightarrow> string \<Rightarrow> node_group \<Rightarrow> node \<Rightarrow> node" where
  "populate traits prefix g (ProviderNode p msg) = ProviderNode p msg"
| "populate traits prefix g (InputNode g' n v) =
     (if g' = g
      then (case map_of (map (\<lambda>(k, x). (prefix @ ''.'' @ k, x)) traits) n of
              None \<Rightarrow> InputNode g' n v
            | Some x \<Rightarrow> InputNode g' n x)
      else InputNode g' n v)"

definition UpdateNodeValuesFromJSON ::
  "container \<Rightarrow> (string \<times> string) list \<Rightarrow> string \<Rightarrow> node_group \<Rightarrow> container" where
  "UpdateNodeValuesFromJSON c traits prefix g = c\<lparr>Nodes := map (populate traits prefix g) (Nodes c)\<rparr>"

text \<open>
  \<^verbatim>\<open>handleError\<close> mutates the flow behind the pointer and returns an error: the model
  returns the flow after the call next to the returned error. \<open>token\<close> is what
  \<^verbatim>\<open>s.d.GenerateCSRFToken(r)\<close> gives for the request and \<open>schema\<close> the outcome of loading
  the default identity traits schema; \<open>traits\<close> is \<open>None\<close> for the nil byte slice.
  Writing \<^verbatim>\<open>rf.UI.Nodes\<close> through a nil \<^verbatim>\<open>*registration.Flow\<close> panics.
\<close>

fun handleError ::
  "string \<Rightarrow> (error + string list) \<Rightarrow> flow_iface \<Rightarrow> string \<Rightarrow> (string \<times> string) list option \<Rightarrow>
   error option \<Rightarrow> (flow_iface \<times> error option) outcome" where
  "handleError token schema (LoginFlow rf) provider traits err = Returned (LoginFlow rf, err)"
| "handleError token schema (RegistrationFlow None) provider traits err =
     Panicked NilPointerDereference"
| "handleError token schema (RegistrationFlow (Some rf)) provider traits err =
     (let ui0 = (UI rf)\<lparr>Nodes := []\<rparr>;
          ui1 = SetCSRF ui0 token;
          ui2 = AddProvider ui1 provider InfoRegistrationContinue
      in case traits of
           None \<Rightarrow> Returned (RegistrationFlow (Some (rf\<lparr>UI := ui2\<rparr>)), err)
         | Some t \<Rightarrow>
             (case NodesFromJSONSchema OpenIDConnectGroup schema [] of
                Inl err' \<Rightarrow> Returned (RegistrationFlow (Some (rf\<lparr>UI := ui2\<rparr>)), Some err')
              | Inr traitNodes \<Rightarrow>
                  (let ui3 = ui2\<lparr>Nodes := Nodes ui2 @ traitNodes\<rparr>;
                       ui4 = UpdateNodeValuesFromJSON ui3 t ''traits'' OpenIDConnectGroup
                   in Returned (RegistrationFlow (Some (rf\<lparr>UI := ui4\<rparr>)), err))))"
| "handleError token schema (SettingsFlow rf) provider traits err = Returned (SettingsFlow rf, err)"
| "handleError token schema NilFlow provider traits err = Returned (NilFlow, err)"

section \<open>Provider configuration\<close>

text \<open>
  \<^verbatim>\<open>samlstrategy.Configuration\<close> with the fields the source reads, and the collection of
  them. Reading a missing key of \<^verbatim>\<open>IDPInformation\<close> (a \<^verbatim>\<open>map[string]string\<close>) gives the
  empty string.
\<close>

record configuration =
  IDPMetadataURL :: string
  IDPSSOURL :: string
  PublicCertPath :: string
  PrivateKeyPath :: string
  IDPInformation :: "string \<rightharpoonup> string"

record configuration_collection =
  SAMLProviders :: "configuration list"

definition info :: "configuration \<Rightarrow> string \<Rightarrow> string" where
  "info c k = (case IDPInformation c k of None \<Rightarrow> [] | Some v \<Rightarrow> v)"

text \<open>
  \<^verbatim>\<open>x, err := f(); if err != nil { return ..., err }\<close>, for a function that may also panic
  further on.
\<close>

definition or_return :: "error + 'a \<Rightarrow> ('a \<Rightarrow> (error + 'b) outcome) \<Rightarrow> (error + 'b) outcome" where
  "or_return r k = (case r of Inl err \<Rightarrow> Returned (Inl err) | Inr x \<Rightarrow> k x)"

text \<open>
  \<^verbatim>\<open>Strategy.Config\<close>: \<open>decoded\<close> is what the strict JSON decoder makes of the strategy's
  configuration.
\<close>

definition Config :: "error + configuration_collection \<Rightarrow> error + configuration_collection" where
  "Config decoded =
     (case decoded of
        Inl err \<Rightarrow>
          Inl (ErrInternalServerError
                 ''Unable to decode SAML Identity Provider configuration: %s'' err)
      | Inr c \<Rightarrow> Inr c)"

text \<open>
  \<^verbatim>\<open>Strategy.provider\<close>. \<^verbatim>\<open>c.SAMLProviders[0]\<close> is read with no check of the length: on an
  empty list the index expression panics. \<open>urlParse\<close> is \<^verbatim>\<open>url.Parse\<close>; \<open>mkProvider\<close> is
  \<^verbatim>\<open>ConfigurationCollection.Provider\<close> of package \<^verbatim>\<open>samlstrategy\<close>, which is not among the
  sources and is taken as it comes.
\<close>

definition provider ::
  "error + configuration_collection \<Rightarrow> (string \<Rightarrow> error + url) \<Rightarrow>
   (configuration_collection \<Rightarrow> url \<Rightarrow> url \<Rightarrow> error + 'p) \<Rightarrow> (error + 'p) outcome" where
  "provider decoded urlParse mkProvider =
     or_return (Config decoded) (\<lambda>c.
       case SAMLProviders c of
         [] \<Rightarrow> Panicked IndexOutOfRange
       | p0 # _ \<Rightarrow>
           or_return (urlParse (IDPMetadataURL p0)) (\<lambda>metadataURL.
           or_return (urlParse (IDPSSOURL p0)) (\<lambda>ssoURL.
           or_return (mkProvider c metadataURL ssoURL) (\<lambda>prov.
           Returned (Inr prov)))))"

section \<open>\<^verbatim>\<open>validateFlow\<close>\<close>

text \<open>
  The collaborators of \<^verbatim>\<open>validateFlow\<close>: the three flow persisters (a lookup gives the flow or
  an error), the session manager's \<^verbatim>\<open>FetchFromRequest\<close> for the request at hand, and the
  \<^verbatim>\<open>Valid\<close> methods of the three flow types.
\<close>

record dependencies =
  GetRegistrationFlow :: "uuid \<Rightarrow> error + registration_flow"
  GetLoginFlow :: "uuid \<Rightarrow> error + login_flow"
  GetSettingsFlow :: "uuid \<Rightarrow> error + settings_flow"
  FetchFromRequest :: "error + session"
  RegistrationValid :: "registration_flow \<Rightarrow> error option"
  LoginValid :: "login_flow \<Rightarrow> error option"
  SettingsValid :: "settings_flow \<Rightarrow> session \<Rightarrow> error option"

text \<open>The calls \<^verbatim>\<open>validateFlow\<close> makes to its collaborators, in order.\<close>

datatype call =
    CallGetRegistrationFlow uuid
  | CallGetLoginFlow uuid
  | CallGetSettingsFlow uuid
  | CallFetchFromRequest
  | CallValid

definition invalidCookie :: error where
  "invalidCookie = ErrBadRequest
     ''The session cookie contains invalid values and the flow could not be executed. Please try again.''"

text \<open>
  The result is the calls made, the returned \<^verbatim>\<open>flow.Flow\<close> and the returned error
  (\<open>None\<close> for nil). When the settings lookup fails too, the pointer returned next to its
  error is the nil \<^verbatim>\<open>*settings.Flow\<close>.
\<close>

definition validateFlow :: "dependencies \<Rightarrow> uuid \<Rightarrow> call list \<times> flow_iface \<times> error option" where
  "validateFlow d rid =
     (if rid = 0 then ([], NilFlow, Some invalidCookie)
      else case GetRegistrationFlow d rid of
        Inr ar \<Rightarrow>
          (if Type ar \<noteq> TypeBrowser
           then ([CallGetRegistrationFlow rid], RegistrationFlow (Some ar), Some ErrAPIFlowNotSupported)
           else case RegistrationValid d ar of
             Some err \<Rightarrow> ([CallGetRegistrationFlow rid, CallValid], RegistrationFlow (Some ar), Some err)
           | None \<Rightarrow> ([CallGetRegistrationFlow rid, CallValid], RegistrationFlow (Some ar), None))
      | Inl _ \<Rightarrow>
          (case GetLoginFlow d rid of
             Inr ar \<Rightarrow>
               (if Type ar \<noteq> TypeBrowser
                then ([CallGetRegistrationFlow rid, CallGetLoginFlow rid],
                      LoginFlow (Some ar), Some ErrAPIFlowNotSupported)
                else case LoginValid d ar of
                  Some err \<Rightarrow> ([CallGetRegistrationFlow rid, CallGetLoginFlow rid, CallValid],
                               LoginFlow (Some ar), Some err)
                | None \<Rightarrow> ([CallGetRegistrationFlow rid, CallGetLoginFlow rid, CallValid],
                           LoginFlow (Some ar), None))
           | Inl _ \<Rightarrow>
               (case GetSettingsFlow d rid of
                  Inr ar \<Rightarrow>
                    (if Type ar \<noteq> TypeBrowser
                     then ([CallGetRegistrationFlow rid, CallGetLoginFlow rid, CallGetSettingsFlow rid],
                           SettingsFlow (Some ar), Some ErrAPIFlowNotSupported)
                     else case FetchFromRequest d of
                       Inl err \<Rightarrow>
                         ([CallGetRegistrationFlow rid, CallGetLoginFlow rid, CallGetSettingsFlow rid,
                           CallFetchFromRequest],
                          SettingsFlow (Some ar), Some err)
                     | Inr sess \<Rightarrow>
                         (case SettingsValid d ar sess of
                            Some err \<Rightarrow>
                              ([CallGetRegistrationFlow rid, CallGetLoginFlow rid,
                                CallGetSettingsFlow rid, CallFetchFromRequest, CallValid],
                               SettingsFlow (Some ar), Some err)
                          | None \<Rightarrow>
                              ([CallGetRegistrationFlow rid, CallGetLoginFlow rid,
                                CallGetSettingsFlow rid, CallFetchFromRequest, CallValid],
                               SettingsFlow (Some ar), None)))
                | Inl err \<Rightarrow>
                    ([CallGetRegistrationFlow rid, CallGetLoginFlow rid, CallGetSettingsFlow rid],
                     SettingsFlow None, Some err))))"

section \<open>\<^verbatim>\<open>handleCallback\<close>\<close>

text \<open>
  The ACS callback of the strategy. \<open>mw\<close> is the pointer \<^verbatim>\<open>samlflow.GetMiddleware()\<close> gives,
  dereferenced at once. \<open>Claims\<close> is the provider's claims mapper.
  \<^verbatim>\<open>processLoginOrRegister\<close> is not among the sources: what it returns for the provider and
  the claims, a pointer to a \<^verbatim>\<open>flow.Flow\<close> (\<open>None\<close> for nil) and an error, is taken as it
  comes. In the failure branch the pointer is dereferenced once under \<^verbatim>\<open>if ff != nil\<close> and
  once after it, where it can only be nil.
\<close>

definition handleCallback ::
  "middleware option \<Rightarrow> error + configuration_collection \<Rightarrow> (string \<Rightarrow> error + url) \<Rightarrow>
   (configuration_collection \<Rightarrow> url \<Rightarrow> url \<Rightarrow> error + 'p) \<Rightarrow>
   ('p \<Rightarrow> attributes \<Rightarrow> error + 'c) \<Rightarrow>
   ('p \<Rightarrow> 'c \<Rightarrow> flow_iface option \<times> error option) \<Rightarrow> effect list \<times> unit outcome" where
  "handleCallback mw decoded urlParse mkProvider Claims processLoginOrRegister =
     (case mw of
        None \<Rightarrow> ([], Panicked NilPointerDereference)
      | Some m \<Rightarrow>
          (case getAttributesFromAssertion m of
             (es, Inl err) \<Rightarrow> (es @ [forwardError NilFlow err], Returned ())
           | (es, Inr attributes) \<Rightarrow>
               (case provider decoded urlParse mkProvider of
                  Panicked p \<Rightarrow> (es, Panicked p)
                | Returned (Inl err) \<Rightarrow> (es @ [forwardError NilFlow err], Returned ())
                | Returned (Inr prov) \<Rightarrow>
                    (case Claims prov attributes of
                       Inl err \<Rightarrow> (es @ [forwardError NilFlow err], Returned ())
                     | Inr claims \<Rightarrow>
                         (case processLoginOrRegister prov claims of
                            (ff, None) \<Rightarrow> (es, Returned ())
                          | (Some f, Some err) \<Rightarrow> (es @ [forwardError f err], Returned ())
                          | (None, Some err) \<Rightarrow> (es, Panicked NilPointerDereference))))))"

section \<open>The standalone ACS handler\<close>

text \<open>
  \<^verbatim>\<open>Handler.serveAcs\<close> of \<^verbatim>\<open>flow/saml/handler.go\<close>. After a failed \<^verbatim>\<open>ParseResponse\<close> the
  handler calls the middleware's \<^verbatim>\<open>OnError\<close> and goes on: \<^verbatim>\<open>CreateSessionFromAssertion\<close> is
  called in both cases, with the nil assertion that comes with the error in the first.
\<close>

definition serveAcs :: "middleware \<Rightarrow> effect list" where
  "serveAcs m =
     (case ParseResponse m (possibleRequestIDs m) of
        Inl err \<Rightarrow> [OnError (Some err), CreateSessionFromAssertion None (DefaultRedirectURI m)]
      | Inr a \<Rightarrow> [CreateSessionFromAssertion (Some a) (DefaultRedirectURI m)])"

section \<open>SSO initiation\<close>

text \<open>
  \<^verbatim>\<open>errors.As(err, &e)\<close> with \<open>e\<close> a \<^verbatim>\<open>*session.ErrNoActiveSessionFound\<close>: the error or one it
  wraps is of that type.
\<close>

fun As_ErrNoActiveSessionFound :: "error \<Rightarrow> bool" where
  "As_ErrNoActiveSessionFound ErrNoActiveSessionFound = True"
| "As_ErrNoActiveSessionFound (ErrWrapped msg err) = As_ErrNoActiveSessionFound err"
| "As_ErrNoActiveSessionFound err = False"

text \<open>
  \<^verbatim>\<open>Handler.loginWithIdp\<close> of \<^verbatim>\<open>flow/saml/handler.go\<close>, whose middleware was built with the
  handler. \<open>fetched\<close> is what \<^verbatim>\<open>SessionManager().FetchFromRequest\<close> gives. After the three-way
  branch \<^verbatim>\<open>OnError\<close> is called with the error, nil or not.
\<close>

definition loginWithIdp_handler :: "url \<Rightarrow> error + session \<Rightarrow> effect list" where
  "loginWithIdp_handler SelfPublicURL fetched =
     (case fetched of
        Inl err \<Rightarrow>
          (if As_ErrNoActiveSessionFound err then [HandleStartAuthFlow] else [])
          @ [OnError (Some err)]
      | Inr sess \<Rightarrow> [Redirect (url_Path SelfPublicURL), OnError None])"

section \<open>The lazily built middleware\<close>

text \<open>
  \<^verbatim>\<open>strings.Replace(s, old, "", 1)\<close> for a non-empty \<open>old\<close>: the first occurrence is cut
  out.
\<close>

fun Replace1 :: "string \<Rightarrow> string \<Rightarrow> string" where
  "Replace1 old [] = []"
| "Replace1 old (c # cs) =
     (if take (length old) (c # cs) = old then drop (length old) (c # cs)
      else c # Replace1 old cs)"

datatype private_key = RSAPrivateKey string | OtherPrivateKey string

record x509_certificate =
  DER :: string

record tls_certificate =
  Certificate :: "string list"
  PrivateKey :: private_key
  Leaf :: "x509_certificate option"

text \<open>
  The IDP's metadata: fetched from its metadata URL, or made up by
  \<^verbatim>\<open>samlidp.IdentityProvider.Metadata()\<close> from a certificate, an entity id, an SSO URL and a
  logout URL.
\<close>

datatype entity_descriptor =
    FetchedMetadata string
  | SimulatedMetadata x509_certificate url url url

record options =
  opt_URL :: url
  opt_Key :: string
  opt_Certificate :: "x509_certificate option"
  opt_IDPMetadata :: entity_descriptor
  opt_SignRequest :: bool

text \<open>
  What \<^verbatim>\<open>instantiateMiddleware\<close> asks of the world outside: the decoded strategy
  configuration, the file system, the certificate and URL parsers, the metadata fetch,
  \<^verbatim>\<open>samlsp.New\<close> and two URLs of the server's configuration.
\<close>

record world =
  decodeConfig :: "error + configuration_collection"
  rawConfig :: string
  LoadX509KeyPair :: "string \<Rightarrow> string \<Rightarrow> error + tls_certificate"
  ParseCertificate :: "string \<Rightarrow> error + x509_certificate"
  urlParse :: "string \<Rightarrow> error + url"
  FetchMetadata :: "url \<Rightarrow> error + entity_descriptor"
  ReadFile :: "string \<Rightarrow> error + string"
  pemDecode :: "string \<Rightarrow> string option"
  samlspNew :: "options \<Rightarrow> error + middleware"
  SelfServiceBrowserDefaultReturnTo :: url
  SelfPublicURL :: url

definition RouteSamlMetadata :: string where
  "RouteSamlMetadata = ''/self-service/methods/saml/metadata''"

definition RouteSamlAcs :: string where
  "RouteSamlAcs = ''/self-service/methods/saml/acs''"

definition UnspecifiedNameIDFormat :: string where
  "UnspecifiedNameIDFormat = ''urn:oasis:names:tc:SAML:1.1:nameid-format:unspecified''"

text \<open>
  \<^verbatim>\<open>mustParseCertificate\<close>: panics when the PEM block or the certificate in it cannot be
  read.
\<close>

definition mustParseCertificate :: "world \<Rightarrow> string \<Rightarrow> x509_certificate outcome" where
  "mustParseCertificate w pemStr =
     (case pemDecode w pemStr of
        None \<Rightarrow> Panicked (ExplicitPanic ''cannot parse PEM'')
      | Some bytes \<Rightarrow>
          (case ParseCertificate w bytes of
             Inl err \<Rightarrow> Panicked (PanicWithError err)
           | Inr cert \<Rightarrow> Returned cert))"

text \<open>
  The IDP metadata of the provider configuration \<open>p\<close>: fetched when \<^verbatim>\<open>idp_metadata_url\<close> is
  set, made up from the other entries otherwise.
\<close>

definition idpMetadataOf :: "world \<Rightarrow> configuration \<Rightarrow> (error + entity_descriptor) outcome" where
  "idpMetadataOf w p =
     (if info p ''idp_metadata_url'' \<noteq> []
      then
        or_return (urlParse w (info p ''idp_metadata_url'')) (\<lambda>idpMetadataURL.
        or_return (FetchMetadata w idpMetadataURL) (\<lambda>idpMetadata.
        Returned (Inr idpMetadata)))
      else
        or_return (urlParse w (info p ''idp_entity_id'')) (\<lambda>entityIDURL.
        or_return (urlParse w (info p ''idp_sso_url'')) (\<lambda>IDPSSOURL.
        or_return (urlParse w (info p ''idp_logout_url'')) (\<lambda>IDPlogoutURL.
        or_return (ReadFile w (Replace1 ''file://'' (info p ''idp_certificate_path''))) (\<lambda>certificate.
        case mustParseCertificate w certificate of
          Panicked pn \<Rightarrow> Panicked pn
        | Returned IDPCertificate \<Rightarrow>
            Returned (Inr (SimulatedMetadata IDPCertificate entityIDURL IDPSSOURL IDPlogoutURL)))))))"

text \<open>
  The ACS and metadata URLs written into the new middleware. The last byte of the public
  URL is read with no check that there is one; the result of parsing the metadata URL is
  dereferenced with its error ignored.
\<close>

definition overwriteRoutes :: "world \<Rightarrow> middleware \<Rightarrow> (error + middleware) outcome" where
  "overwriteRoutes w m0 =
     (let publicUrlString = url_String (SelfPublicURL w) in
      if publicUrlString = [] then Panicked IndexOutOfRange
      else
        (let trimmed = (if last publicUrlString \<noteq> CHR ''/'' then publicUrlString
                        else butlast publicUrlString)
         in or_return (urlParse w (trimmed @ RouteSamlAcs)) (\<lambda>u.
              case urlParse w (trimmed @ RouteSamlMetadata) of
                Inl err \<Rightarrow> Panicked NilPointerDereference
              | Inr metadata \<Rightarrow>
                  Returned (Inr (m0\<lparr>AcsURL := u, MetadataURL := metadata,
                                     EntityID := url_String metadata,
                                     AuthnNameIDFormat := UnspecifiedNameIDFormat\<rparr>)))))"

text \<open>
  \<^verbatim>\<open>instantiateMiddleware\<close> up to its last statement: everything that builds the local
  \<^verbatim>\<open>samlMiddleWare\<close>. The provider configuration is \<^verbatim>\<open>c.SAMLProviders[len(c.SAMLProviders)-1]\<close>,
  read with no check of the length.
\<close>

definition buildMiddleware :: "world \<Rightarrow> (error + middleware) outcome" where
  "buildMiddleware w =
     (case decodeConfig w of
        Inl err \<Rightarrow> Returned (Inl (ErrWrapped (''Unable to decode config '' @ rawConfig w) err))
      | Inr c \<Rightarrow>
          (if SAMLProviders c = [] then Panicked IndexOutOfRange
           else
             (let p = last (SAMLProviders c) in
              or_return (LoadX509KeyPair w (Replace1 ''file://'' (PublicCertPath p))
                           (Replace1 ''file://'' (PrivateKeyPath p))) (\<lambda>keyPair.
              case Certificate keyPair of
                [] \<Rightarrow> Panicked IndexOutOfRange
              | cert0 # _ \<Rightarrow>
                  or_return (ParseCertificate w cert0) (\<lambda>leaf.
                  case idpMetadataOf w p of
                    Panicked pn \<Rightarrow> Panicked pn
                  | Returned (Inl err) \<Rightarrow> Returned (Inl err)
                  | Returned (Inr idpMetadata) \<Rightarrow>
                      or_return (urlParse w (url_String (SelfServiceBrowserDefaultReturnTo w))) (\<lambda>rootURL.
                      case PrivateKey keyPair of
                        OtherPrivateKey k \<Rightarrow> Panicked TypeAssertionFailed
                      | RSAPrivateKey k \<Rightarrow>
                          or_return (samlspNew w \<lparr>opt_URL = rootURL, opt_Key = k,
                                       opt_Certificate = Some leaf, opt_IDPMetadata = idpMetadata,
                                       opt_SignRequest = True\<rparr>) (\<lambda>samlMiddleWare.
                          overwriteRoutes w samlMiddleWare)))))))"

text \<open>
  \<^verbatim>\<open>instantiateMiddleware\<close>: the package variable \<^verbatim>\<open>samlMiddleware\<close> before the call goes in,
  the variable after the call comes out with the returned error. The variable is written
  by the last statement only.
\<close>

definition instantiateMiddleware ::
  "world \<Rightarrow> middleware option \<Rightarrow> middleware option \<times> error option outcome" where
  "instantiateMiddleware w samlMiddleware =
     (case buildMiddleware w of
        Panicked pn \<Rightarrow> (samlMiddleware, Panicked pn)
      | Returned (Inl err) \<Rightarrow> (samlMiddleware, Returned (Some err))
      | Returned (Inr m) \<Rightarrow> (Some m, Returned None))"

text \<open>
  \<^verbatim>\<open>Handler.loginWithIdp\<close> of the handler with the lazily built middleware. A failed
  \<^verbatim>\<open>instantiateMiddleware\<close> is forwarded and the handler goes on. In the session test the
  branch for "no error" forwards the (nil) error, and the redirect to the default return
  URL sits in the branch for an error other than \<^verbatim>\<open>ErrNoActiveSessionFound\<close>.
  \<^verbatim>\<open>HandleStartAuthFlow\<close> on a nil middleware dereferences it.
\<close>

definition loginWithIdp ::
  "world \<Rightarrow> error + session \<Rightarrow> middleware option \<Rightarrow> middleware option \<times> effect list \<times> unit outcome" where
  "loginWithIdp w fetched samlMiddleware =
     (case (case samlMiddleware of
              Some m \<Rightarrow> (samlMiddleware, [], Returned ())
            | None \<Rightarrow>
                (case instantiateMiddleware w samlMiddleware of
                   (g, Panicked pn) \<Rightarrow> (g, [], Panicked pn)
                 | (g, Returned (Some err)) \<Rightarrow> (g, [Forward (Some err)], Returned ())
                 | (g, Returned None) \<Rightarrow> (g, [], Returned ()))) of
        (g, es, Panicked pn) \<Rightarrow> (g, es, Panicked pn)
      | (g, es, Returned u) \<Rightarrow>
          (case fetched of
             Inl err \<Rightarrow>
               (if As_ErrNoActiveSessionFound err
                then (case g of
                        None \<Rightarrow> (g, es, Panicked NilPointerDereference)
                      | Some m \<Rightarrow> (g, es @ [HandleStartAuthFlow], Returned ()))
                else (g, es @ [Redirect (url_Path (SelfServiceBrowserDefaultReturnTo w))], Returned ()))
           | Inr sess \<Rightarrow> (g, es @ [Forward None], Returned ())))"

section \<open>Requests that race for the middleware\<close>

text \<open>
  The package variable \<^verbatim>\<open>samlMiddleware\<close> is a pointer shared by all requests, read and
  written with no lock. A request of \<^verbatim>\<open>loginWithIdp\<close> that carries no session touches it in
  four places, one after the other: the test \<^verbatim>\<open>samlMiddleware == nil\<close>, the construction
  inside \<^verbatim>\<open>instantiateMiddleware\<close> (which allocates a new middleware), the assignment that
  ends \<^verbatim>\<open>instantiateMiddleware\<close>, and the use \<^verbatim>\<open>samlMiddleware.HandleStartAuthFlow\<close>. A pointer
  is the index of the middleware among those built so far. A request whose construction
  returns an error goes on to the use, as the handler does after forwarding the error; one
  whose construction panics, or that finds the variable nil at the use, has crashed.
\<close>

datatype pc =
    AtCheck
  | AtConstruct
  | AtAssign nat
  | AtUse
  | Used nat
  | Crashed panic

record shared =
  samlMiddleware_var :: "nat option"
  built :: "middleware list"

fun step :: "world \<Rightarrow> shared \<Rightarrow> pc \<Rightarrow> shared \<times> pc" where
  "step w s AtCheck = (s, if samlMiddleware_var s = None then AtConstruct else AtUse)"
| "step w s AtConstruct =
     (case buildMiddleware w of
        Returned (Inr m) \<Rightarrow> (s\<lparr>built := built s @ [m]\<rparr>, AtAssign (length (built s)))
      | Returned (Inl err) \<Rightarrow> (s, AtUse)
      | Panicked pn \<Rightarrow> (s, Crashed pn))"
| "step w s (AtAssign ptr) = (s\<lparr>samlMiddleware_var := Some ptr\<rparr>, AtUse)"
| "step w s AtUse =
     (case samlMiddleware_var s of
        None \<Rightarrow> (s, Crashed NilPointerDereference)
      | Some ptr \<Rightarrow> (s, Used ptr))"
| "step w s (Used ptr) = (s, Used ptr)"
| "step w s (Crashed pn) = (s, Crashed pn)"

text \<open>
  A schedule names, step by step, the request that moves next.
\<close>

fun run :: "world \<Rightarrow> nat list \<Rightarrow> shared \<times> pc list \<Rightarrow> shared \<times> pc list" where
  "run w [] c = c"
| "run w (i # sched) (s, pcs) =
     (if i < length pcs
      then (case step w s (pcs ! i) of (s', pc') \<Rightarrow> run w sched (s', pcs[i := pc']))
      else run w sched (s, pcs))"

section \<open>Attribute extraction, as the specification words it\<close>

text \<open>
  The key of an attribute is its friendly name when that is not empty and its raw name
  otherwise; a key's values are the values of all attributes with that key, over all
  statements, in the order met and with repetitions; a key with no value is absent.
\<close>

definition key_of :: "attribute \<Rightarrow> string" where
  "key_of attr = (if FriendlyName attr \<noteq> [] then FriendlyName attr else Name attr)"

definition values_for :: "attribute list \<Rightarrow> string \<Rightarrow> string list" where
  "values_for attrs k =
     concat (map (\<lambda>attr. map Value (Values attr)) (filter (\<lambda>attr. key_of attr = k) attrs))"

definition extract_spec :: "assertion \<Rightarrow> attributes" where
  "extract_spec a =
     (\<lambda>k. let vs = values_for (concat (map Attributes (AttributeStatements a))) k
          in if vs = [] then None else Some vs)"

section \<open>Reading a result of \<^verbatim>\<open>validateFlow\<close>\<close>

text \<open>The lookups in the flow stores among the calls.\<close>

fun is_probe :: "call \<Rightarrow> bool" where
  "is_probe (CallGetRegistrationFlow rid) = True"
| "is_probe (CallGetLoginFlow rid) = True"
| "is_probe (CallGetSettingsFlow rid) = True"
| "is_probe c = False"

text \<open>The execution mode of the flow behind a \<^verbatim>\<open>flow.Flow\<close>, when there is a flow.\<close>

fun flow_type_of :: "flow_iface \<Rightarrow> flow_type option" where
  "flow_type_of NilFlow = None"
| "flow_type_of (LoginFlow ff) = map_option Type ff"
| "flow_type_of (RegistrationFlow ff) = map_option Type ff"
| "flow_type_of (SettingsFlow ff) = map_option Type ff"

section \<open>Concrete inputs\<close>

text \<open>
  An assertion with two statements: \<^verbatim>\<open>uid\<close> has no friendly name, \<^verbatim>\<open>email\<close> is a
  friendly name in the first statement and a raw name in the second, and \<^verbatim>\<open>groups\<close> has
  no value.
\<close>

definition assertion1 :: assertion where
  "assertion1 = \<lparr>AttributeStatements =
     [\<lparr>Attributes =
         [\<lparr>FriendlyName = [], Name = ''uid'', Values = [\<lparr>Value = ''alice''\<rparr>]\<rparr>,
          \<lparr>FriendlyName = ''email'', Name = ''urn:oid:0.9.2342.19200300.100.1.3'',
           Values = [\<lparr>Value = ''a@example.com''\<rparr>, \<lparr>Value = ''b@example.com''\<rparr>]\<rparr>]\<rparr>,
      \<lparr>Attributes =
         [\<lparr>FriendlyName = [], Name = ''email'', Values = [\<lparr>Value = ''a@example.com''\<rparr>]\<rparr>,
          \<lparr>FriendlyName = ''groups'', Name = ''g'', Values = []\<rparr>]\<rparr>]\<rparr>"

definition assertion0 :: assertion where
  "assertion0 = \<lparr>AttributeStatements = []\<rparr>"

definition url0 :: url where
  "url0 = \<lparr>url_String = ''https://kratos.example/'', url_Path = ''/''\<rparr>"

text \<open>A middleware whose engine accepts the response and gives the assertion.\<close>

definition middleware_ok :: "assertion \<Rightarrow> middleware" where
  "middleware_ok a = \<lparr>AllowIDPInitiated = True, GetTrackedRequests = [\<lparr>SAMLRequestID = ''id-1''\<rparr>],
     ParseResponse = (\<lambda>ids. Inr a), AcsURL = url0, MetadataURL = url0, EntityID = [],
     AuthnNameIDFormat = [], DefaultRedirectURI = ''/''\<rparr>"

text \<open>A middleware whose engine rejects the response.\<close>

definition middleware_rejecting :: middleware where
  "middleware_rejecting = \<lparr>AllowIDPInitiated = False, GetTrackedRequests = [],
     ParseResponse = (\<lambda>ids. Inl (OtherError ''invalid response'')), AcsURL = url0,
     MetadataURL = url0, EntityID = [], AuthnNameIDFormat = [], DefaultRedirectURI = ''/''\<rparr>"

text \<open>
  Flows with the id 7, and collaborators of \<^verbatim>\<open>validateFlow\<close>: \<open>deps0\<close> has three empty
  stores and a request with no session; the others put one flow into one store.
\<close>

definition registration7 :: registration_flow where
  "registration7 = \<lparr>ID = 7, Type = TypeBrowser,
     UI = \<lparr>Nodes = [InputNode OpenIDConnectGroup ''traits.email'' ''old@example.com'',
                     ProviderNode ''other-idp'' (OtherMessage ''Sign in'')],
            CSRF = ''token-1''\<rparr>\<rparr>"

definition login7 :: login_flow where
  "login7 = \<lparr>ID = 7, Type = TypeBrowser, login_UI = \<lparr>Nodes = [], CSRF = ''token-1''\<rparr>\<rparr>"

definition settings7 :: settings_flow where
  "settings7 = \<lparr>ID = 7, Type = TypeBrowser, IdentityID = 1\<rparr>"

definition settings7_api :: settings_flow where
  "settings7_api = \<lparr>ID = 7, Type = TypeAPI, IdentityID = 1\<rparr>"

definition registration7_api :: registration_flow where
  "registration7_api = registration7\<lparr>Type := TypeAPI\<rparr>"

definition login7_api :: login_flow where
  "login7_api = login7\<lparr>Type := TypeAPI\<rparr>"

definition notFound :: error where
  "notFound = OtherError ''sql: no rows in result set''"

definition ownerMismatch :: error where
  "ownerMismatch = OtherError ''the flow belongs to another identity''"

definition deps0 :: dependencies where
  "deps0 = \<lparr>GetRegistrationFlow = (\<lambda>rid. Inl notFound),
            GetLoginFlow = (\<lambda>rid. Inl notFound),
            GetSettingsFlow = (\<lambda>rid. Inl (OtherError ''settings flow not found'')),
            FetchFromRequest = Inl ErrNoActiveSessionFound,
            RegistrationValid = (\<lambda>f. None),
            LoginValid = (\<lambda>f. None),
            SettingsValid = (\<lambda>f sess. if session_IdentityID sess = IdentityID f then None
                                      else Some ownerMismatch)\<rparr>"

definition deps_registration :: "registration_flow \<Rightarrow> dependencies" where
  "deps_registration f =
     deps0\<lparr>GetRegistrationFlow := (\<lambda>rid. if rid = 7 then Inr f else Inl notFound)\<rparr>"

definition deps_login :: "login_flow \<Rightarrow> dependencies" where
  "deps_login f = deps0\<lparr>GetLoginFlow := (\<lambda>rid. if rid = 7 then Inr f else Inl notFound)\<rparr>"

definition deps_settings :: "settings_flow \<Rightarrow> error + session \<Rightarrow> dependencies" where
  "deps_settings f fetched =
     deps0\<lparr>GetSettingsFlow := (\<lambda>rid. if rid = 7 then Inr f else Inl notFound),
           FetchFromRequest := fetched\<rparr>"

text \<open>
  A strategy configuration with one provider that names a metadata URL, one with no
  provider at all, and a world in which every file, URL and certificate is fine.
\<close>

definition provider1 :: configuration where
  "provider1 = \<lparr>IDPMetadataURL = ''https://idp.example/metadata'',
     IDPSSOURL = ''https://idp.example/sso'',
     PublicCertPath = ''file:///etc/saml/sp.crt'', PrivateKeyPath = ''file:///etc/saml/sp.key'',
     IDPInformation = [''idp_metadata_url'' \<mapsto> ''https://idp.example/metadata'']\<rparr>"

definition conf1 :: configuration_collection where
  "conf1 = \<lparr>SAMLProviders = [provider1]\<rparr>"

definition conf_empty :: configuration_collection where
  "conf_empty = \<lparr>SAMLProviders = []\<rparr>"

definition parse_any :: "string \<Rightarrow> error + url" where
  "parse_any s = Inr \<lparr>url_String = s, url_Path = []\<rparr>"

definition world_ok :: "configuration_collection \<Rightarrow> world" where
  "world_ok c = \<lparr>decodeConfig = Inr c, rawConfig = ''{}'',
     LoadX509KeyPair = (\<lambda>cert key. Inr \<lparr>Certificate = [''DER''], PrivateKey = RSAPrivateKey ''RSA'',
                                          Leaf = None\<rparr>),
     ParseCertificate = (\<lambda>der. Inr \<lparr>DER = der\<rparr>),
     urlParse = parse_any,
     FetchMetadata = (\<lambda>u. Inr (FetchedMetadata (url_String u))),
     ReadFile = (\<lambda>path. Inr ''PEM''),
     pemDecode = (\<lambda>pem. Some ''DER''),
     samlspNew = (\<lambda>opts. Inr (middleware_ok assertion0)),
     SelfServiceBrowserDefaultReturnTo =
       \<lparr>url_String = ''https://app.example/home'', url_Path = ''/home''\<rparr>,
     SelfPublicURL = url0\<rparr>"

text \<open>The middleware \<^verbatim>\<open>instantiateMiddleware\<close> builds in that world.\<close>

definition middleware1 :: middleware where
  "middleware1 = (middleware_ok assertion0)
     \<lparr>AcsURL := \<lparr>url_String = ''https://kratos.example/self-service/methods/saml/acs'',
                  url_Path = []\<rparr>,
      MetadataURL := \<lparr>url_String = ''https://kratos.example/self-service/methods/saml/metadata'',
                       url_Path = []\<rparr>,
      EntityID := ''https://kratos.example/self-service/methods/saml/metadata'',
      AuthnNameIDFormat := ''urn:oasis:names:tc:SAML:1.1:nameid-format:unspecified''\<rparr>"

text \<open>No middleware built yet.\<close>

definition shared0 :: shared where
  "shared0 = \<lparr>samlMiddleware_var = None, built = []\<rparr>"

section \<open>Attribute extraction\<close>

lemma range_values_eq:
  "range_values k vs m = (if vs = [] then m else m(k \<mapsto> lookup m k @ map Value vs))"
  by (induction vs arbitrary: m) (auto simp: append_value_def lookup_def)

lemma claimName_key_of: "claimName attr = key_of attr"
  by (simp add: claimName_def key_of_def)

lemma range_attributes_eq:
  "range_attributes attrs m k =
     (if values_for attrs k = [] then m k else Some (lookup m k @ values_for attrs k))"
proof (induction attrs arbitrary: m)
  case Nil
  show ?case by (simp add: values_for_def)
next
  case (Cons attr attrs)
  show ?case
    by (simp add: Cons.IH range_values_eq claimName_key_of values_for_def lookup_def)
qed

lemma values_for_append: "values_for (xs @ ys) k = values_for xs k @ values_for ys k"
  by (simp add: values_for_def)

lemma range_statements_eq:
  "range_statements sts m k =
     (if values_for (concat (map Attributes sts)) k = [] then m k
      else Some (lookup m k @ values_for (concat (map Attributes sts)) k))"
proof (induction sts arbitrary: m)
  case Nil
  show ?case by (simp add: values_for_def)
next
  case (Cons st sts)
  show ?case
    by (simp add: Cons.IH range_attributes_eq values_for_append lookup_def)
qed

lemma range_statements_extract:
  "range_statements (AttributeStatements a) Map.empty = extract_spec a"
  by (rule ext) (simp add: range_statements_eq extract_spec_def lookup_def Let_def)

text \<open>
  C5. When the engine has parsed the assertion, \<^verbatim>\<open>getAttributesFromAssertion\<close> writes no
  response and returns the mapping the specification describes: every attribute of every
  statement is visited, its key is the friendly name when that is not empty and the raw
  name otherwise, and the values of a key are collected in the order met, repetitions
  kept. An assertion with no attribute statement gives the empty mapping.
\<close>

theorem getAttributesFromAssertion_extract:
  assumes "ParseResponse m (possibleRequestIDs m) = Inr a"
  shows "getAttributesFromAssertion m = ([], Inr (extract_spec a))
       \<and> (AttributeStatements a = [] \<longrightarrow> getAttributesFromAssertion m = ([], Inr Map.empty))"
proof -
  have run: "getAttributesFromAssertion m = ([], Inr (extract_spec a))"
    using assms by (simp add: getAttributesFromAssertion_def range_statements_extract)
  have "extract_spec a = Map.empty" if "AttributeStatements a = []"
    using that by (simp add: extract_spec_def values_for_def)
  with run show ?thesis by simp
qed

lemma extract_spec_assertion1:
  "extract_spec assertion1 ''uid'' = Some [''alice'']"
  "extract_spec assertion1 ''email'' = Some [''a@example.com'', ''b@example.com'', ''a@example.com'']"
  "extract_spec assertion1 ''groups'' = None"
  "extract_spec assertion1 ''urn:oid:0.9.2342.19200300.100.1.3'' = None"
  by (simp_all add: extract_spec_def values_for_def key_of_def assertion1_def)

theorem getAttributesFromAssertion_extract_witness:
  "ParseResponse (middleware_ok assertion1) (possibleRequestIDs (middleware_ok assertion1)) = Inr assertion1
   \<and> getAttributesFromAssertion (middleware_ok assertion1) = ([], Inr (extract_spec assertion1))
   \<and> extract_spec assertion1 ''uid'' = Some [''alice'']
   \<and> extract_spec assertion1 ''email'' = Some [''a@example.com'', ''b@example.com'', ''a@example.com'']
   \<and> extract_spec assertion1 ''groups'' = None
   \<and> AttributeStatements assertion0 = []
   \<and> getAttributesFromAssertion (middleware_ok assertion0) = ([], Inr Map.empty)"
proof -
  have p1: "ParseResponse (middleware_ok assertion1) (possibleRequestIDs (middleware_ok assertion1)) = Inr assertion1"
    by (simp add: middleware_ok_def)
  have p0: "ParseResponse (middleware_ok assertion0) (possibleRequestIDs (middleware_ok assertion0)) = Inr assertion0"
    by (simp add: middleware_ok_def)
  have e0: "AttributeStatements assertion0 = []"
    by (simp add: assertion0_def)
  have r1: "getAttributesFromAssertion (middleware_ok assertion1) = ([], Inr (extract_spec assertion1))"
    using getAttributesFromAssertion_extract [OF p1] by (rule conjunct1)
  have r0: "getAttributesFromAssertion (middleware_ok assertion0) = ([], Inr Map.empty)"
    using getAttributesFromAssertion_extract [OF p0] e0 by blast
  show ?thesis
    using p1 r1 e0 r0 by (simp add: extract_spec_assertion1)
qed


section \<open>Flow validation\<close>

lemma validateFlow_registration:
  "rid \<noteq> 0 \<Longrightarrow> GetRegistrationFlow d rid = Inr ar \<Longrightarrow>
   validateFlow d rid =
     (if Type ar \<noteq> TypeBrowser
      then ([CallGetRegistrationFlow rid], RegistrationFlow (Some ar), Some ErrAPIFlowNotSupported)
      else ([CallGetRegistrationFlow rid, CallValid], RegistrationFlow (Some ar), RegistrationValid d ar))"
  by (simp add: validateFlow_def split: option.split)

lemma validateFlow_login:
  "rid \<noteq> 0 \<Longrightarrow> GetRegistrationFlow d rid = Inl e1 \<Longrightarrow> GetLoginFlow d rid = Inr ar \<Longrightarrow>
   validateFlow d rid =
     (if Type ar \<noteq> TypeBrowser
      then ([CallGetRegistrationFlow rid, CallGetLoginFlow rid], LoginFlow (Some ar),
            Some ErrAPIFlowNotSupported)
      else ([CallGetRegistrationFlow rid, CallGetLoginFlow rid, CallValid], LoginFlow (Some ar),
            LoginValid d ar))"
  by (simp add: validateFlow_def split: option.split)

lemma validateFlow_settings:
  "rid \<noteq> 0 \<Longrightarrow> GetRegistrationFlow d rid = Inl e1 \<Longrightarrow> GetLoginFlow d rid = Inl e2 \<Longrightarrow>
   GetSettingsFlow d rid = Inr ar \<Longrightarrow>
   validateFlow d rid =
     (if Type ar \<noteq> TypeBrowser
      then ([CallGetRegistrationFlow rid, CallGetLoginFlow rid, CallGetSettingsFlow rid],
            SettingsFlow (Some ar), Some ErrAPIFlowNotSupported)
      else case FetchFromRequest d of
        Inl err \<Rightarrow>
          ([CallGetRegistrationFlow rid, CallGetLoginFlow rid, CallGetSettingsFlow rid,
            CallFetchFromRequest], SettingsFlow (Some ar), Some err)
      | Inr sess \<Rightarrow>
          ([CallGetRegistrationFlow rid, CallGetLoginFlow rid, CallGetSettingsFlow rid,
            CallFetchFromRequest, CallValid], SettingsFlow (Some ar), SettingsValid d ar sess))"
  by (simp add: validateFlow_def split: option.split sum.split)

lemma validateFlow_none:
  "rid \<noteq> 0 \<Longrightarrow> GetRegistrationFlow d rid = Inl e1 \<Longrightarrow> GetLoginFlow d rid = Inl e2 \<Longrightarrow>
   GetSettingsFlow d rid = Inl e3 \<Longrightarrow>
   validateFlow d rid =
     ([CallGetRegistrationFlow rid, CallGetLoginFlow rid, CallGetSettingsFlow rid],
      SettingsFlow None, Some e3)"
  by (simp add: validateFlow_def)

text \<open>
  C4. For a non-zero flow id, \<^verbatim>\<open>validateFlow\<close> asks the registration store, then the login
  store, then the settings store, stops at the first store that holds the id and returns
  that store's flow; when no store holds the id it returns the error of the settings
  lookup, the last one made. So an id held by exactly one store gives that store's flow:
  the registration store's whatever the others say, the login store's when the
  registration store misses, the settings store's when both others miss.
\<close>

theorem validateFlow_probe_order:
  assumes "rid \<noteq> 0"
  shows "(\<forall>ar. GetRegistrationFlow d rid = Inr ar \<longrightarrow>
            fst (snd (validateFlow d rid)) = RegistrationFlow (Some ar)
          \<and> filter is_probe (fst (validateFlow d rid)) = [CallGetRegistrationFlow rid])
       \<and> (\<forall>e1 ar. GetRegistrationFlow d rid = Inl e1 \<and> GetLoginFlow d rid = Inr ar \<longrightarrow>
            fst (snd (validateFlow d rid)) = LoginFlow (Some ar)
          \<and> filter is_probe (fst (validateFlow d rid)) =
              [CallGetRegistrationFlow rid, CallGetLoginFlow rid])
       \<and> (\<forall>e1 e2 ar. GetRegistrationFlow d rid = Inl e1 \<and> GetLoginFlow d rid = Inl e2
            \<and> GetSettingsFlow d rid = Inr ar \<longrightarrow>
            fst (snd (validateFlow d rid)) = SettingsFlow (Some ar)
          \<and> filter is_probe (fst (validateFlow d rid)) =
              [CallGetRegistrationFlow rid, CallGetLoginFlow rid, CallGetSettingsFlow rid])
       \<and> (\<forall>e1 e2 e3. GetRegistrationFlow d rid = Inl e1 \<and> GetLoginFlow d rid = Inl e2
            \<and> GetSettingsFlow d rid = Inl e3 \<longrightarrow>
            validateFlow d rid =
              ([CallGetRegistrationFlow rid, CallGetLoginFlow rid, CallGetSettingsFlow rid],
               SettingsFlow None, Some e3))"
proof (intro conjI allI impI)
  fix ar assume "GetRegistrationFlow d rid = Inr ar"
  from validateFlow_registration [OF assms this]
  show "fst (snd (validateFlow d rid)) = RegistrationFlow (Some ar)"
    and "filter is_probe (fst (validateFlow d rid)) = [CallGetRegistrationFlow rid]"
    by simp_all
next
  fix e1 ar assume "GetRegistrationFlow d rid = Inl e1 \<and> GetLoginFlow d rid = Inr ar"
  then have "GetRegistrationFlow d rid = Inl e1" "GetLoginFlow d rid = Inr ar" by simp_all
  from validateFlow_login [OF assms this]
  show "fst (snd (validateFlow d rid)) = LoginFlow (Some ar)"
    and "filter is_probe (fst (validateFlow d rid)) =
           [CallGetRegistrationFlow rid, CallGetLoginFlow rid]"
    by simp_all
next
  fix e1 e2 ar
  assume "GetRegistrationFlow d rid = Inl e1 \<and> GetLoginFlow d rid = Inl e2
            \<and> GetSettingsFlow d rid = Inr ar"
  then have "GetRegistrationFlow d rid = Inl e1" "GetLoginFlow d rid = Inl e2"
    "GetSettingsFlow d rid = Inr ar" by simp_all
  from validateFlow_settings [OF assms this]
  show "fst (snd (validateFlow d rid)) = SettingsFlow (Some ar)"
    and "filter is_probe (fst (validateFlow d rid)) =
           [CallGetRegistrationFlow rid, CallGetLoginFlow rid, CallGetSettingsFlow rid]"
    by (simp_all split: sum.split)
next
  fix e1 e2 e3
  assume "GetRegistrationFlow d rid = Inl e1 \<and> GetLoginFlow d rid = Inl e2
            \<and> GetSettingsFlow d rid = Inl e3"
  then show "validateFlow d rid =
              ([CallGetRegistrationFlow rid, CallGetLoginFlow rid, CallGetSettingsFlow rid],
               SettingsFlow None, Some e3)"
    using validateFlow_none [OF assms] by blast
qed


lemma seven_nonzero: "(7::uuid) \<noteq> 0"
  by simp

lemma deps_registration_simps:
  "GetRegistrationFlow (deps_registration f) 7 = Inr f"
  "RegistrationValid (deps_registration f) = (\<lambda>f. None)"
  by (simp_all add: deps_registration_def deps0_def)

lemma deps_login_simps:
  "GetRegistrationFlow (deps_login f) 7 = Inl notFound"
  "GetLoginFlow (deps_login f) 7 = Inr f"
  by (simp_all add: deps_login_def deps0_def)

lemma deps_settings_simps:
  "GetRegistrationFlow (deps_settings f fetched) 7 = Inl notFound"
  "GetLoginFlow (deps_settings f fetched) 7 = Inl notFound"
  "GetSettingsFlow (deps_settings f fetched) 7 = Inr f"
  "FetchFromRequest (deps_settings f fetched) = fetched"
  "SettingsValid (deps_settings f fetched) f' sess =
     (if session_IdentityID sess = IdentityID f' then None else Some ownerMismatch)"
  by (simp_all add: deps_settings_def deps0_def)

lemma deps0_simps:
  "GetRegistrationFlow deps0 7 = Inl notFound"
  "GetLoginFlow deps0 7 = Inl notFound"
  "GetSettingsFlow deps0 7 = Inl (OtherError ''settings flow not found'')"
  by (simp_all add: deps0_def)

theorem validateFlow_probe_order_witness:
  "(7::uuid) \<noteq> 0
   \<and> GetRegistrationFlow (deps_registration registration7) 7 = Inr registration7
   \<and> fst (snd (validateFlow (deps_registration registration7) 7)) = RegistrationFlow (Some registration7)
   \<and> GetRegistrationFlow (deps_login login7) 7 = Inl notFound \<and> GetLoginFlow (deps_login login7) 7 = Inr login7
   \<and> fst (snd (validateFlow (deps_login login7) 7)) = LoginFlow (Some login7)
   \<and> filter is_probe (fst (validateFlow (deps_login login7) 7)) = [CallGetRegistrationFlow 7, CallGetLoginFlow 7]
   \<and> GetSettingsFlow (deps_settings settings7 (Inl ErrNoActiveSessionFound)) 7 = Inr settings7
   \<and> fst (snd (validateFlow (deps_settings settings7 (Inl ErrNoActiveSessionFound)) 7)) =
        SettingsFlow (Some settings7)
   \<and> GetSettingsFlow deps0 7 = Inl (OtherError ''settings flow not found'')
   \<and> validateFlow deps0 7 =
        ([CallGetRegistrationFlow 7, CallGetLoginFlow 7, CallGetSettingsFlow 7], SettingsFlow None,
         Some (OtherError ''settings flow not found''))"
proof -
  note t = validateFlow_probe_order [OF seven_nonzero]
  have r: "fst (snd (validateFlow (deps_registration registration7) 7)) = RegistrationFlow (Some registration7)"
    using t [of "deps_registration registration7", THEN conjunct1, rule_format, OF deps_registration_simps(1)]
    by simp
  have l: "fst (snd (validateFlow (deps_login login7) 7)) = LoginFlow (Some login7)
         \<and> filter is_probe (fst (validateFlow (deps_login login7) 7)) =
             [CallGetRegistrationFlow 7, CallGetLoginFlow 7]"
    using t [of "deps_login login7", THEN conjunct2, THEN conjunct1, rule_format, of notFound login7]
    by (simp add: deps_login_simps)
  have s: "fst (snd (validateFlow (deps_settings settings7 (Inl ErrNoActiveSessionFound)) 7)) =
             SettingsFlow (Some settings7)"
    using t [of "deps_settings settings7 (Inl ErrNoActiveSessionFound)",
             THEN conjunct2, THEN conjunct2, THEN conjunct1, rule_format, of notFound notFound settings7]
    by (simp add: deps_settings_simps)
  have n: "validateFlow deps0 7 =
        ([CallGetRegistrationFlow 7, CallGetLoginFlow 7, CallGetSettingsFlow 7], SettingsFlow None,
         Some (OtherError ''settings flow not found''))"
    using t [of deps0, THEN conjunct2, THEN conjunct2, THEN conjunct2, rule_format,
             of notFound notFound "OtherError ''settings flow not found''"]
    by (simp add: deps0_simps)
  show ?thesis
    using r l s n by (simp add: deps_registration_simps deps_login_simps deps_settings_simps deps0_simps)
qed

text \<open>
  C7, as amended. For a settings flow of execution mode "browser", \<^verbatim>\<open>validateFlow\<close> fetches
  the session of the request: when the fetch fails, the result is the fetch's own error,
  whatever the flow's validity check would say; when it succeeds, the session is passed to
  the flow's validity check, whose answer is the result. A settings flow of another
  execution mode is rejected as an unsupported API flow before any session is fetched. A
  flow found in the registration or the login store never leads to a session fetch.
\<close>

theorem validateFlow_settings_session:
  assumes "rid \<noteq> 0"
  shows "(\<forall>e1 e2 ar. GetRegistrationFlow d rid = Inl e1 \<and> GetLoginFlow d rid = Inl e2
            \<and> GetSettingsFlow d rid = Inr ar \<and> Type ar = TypeBrowser \<longrightarrow>
            (\<forall>err. FetchFromRequest d = Inl err \<longrightarrow>
               validateFlow d rid =
                 ([CallGetRegistrationFlow rid, CallGetLoginFlow rid, CallGetSettingsFlow rid,
                   CallFetchFromRequest], SettingsFlow (Some ar), Some err))
          \<and> (\<forall>sess. FetchFromRequest d = Inr sess \<longrightarrow>
               validateFlow d rid =
                 ([CallGetRegistrationFlow rid, CallGetLoginFlow rid, CallGetSettingsFlow rid,
                   CallFetchFromRequest, CallValid], SettingsFlow (Some ar), SettingsValid d ar sess)))
       \<and> (\<forall>e1 e2 ar. GetRegistrationFlow d rid = Inl e1 \<and> GetLoginFlow d rid = Inl e2
            \<and> GetSettingsFlow d rid = Inr ar \<and> Type ar \<noteq> TypeBrowser \<longrightarrow>
            validateFlow d rid =
              ([CallGetRegistrationFlow rid, CallGetLoginFlow rid, CallGetSettingsFlow rid],
               SettingsFlow (Some ar), Some ErrAPIFlowNotSupported))
       \<and> (\<forall>ar. GetRegistrationFlow d rid = Inr ar \<longrightarrow>
            CallFetchFromRequest \<notin> set (fst (validateFlow d rid)))
       \<and> (\<forall>e1 ar. GetRegistrationFlow d rid = Inl e1 \<and> GetLoginFlow d rid = Inr ar \<longrightarrow>
            CallFetchFromRequest \<notin> set (fst (validateFlow d rid)))"
proof (intro conjI allI impI)
  fix e1 e2 ar err
  assume "GetRegistrationFlow d rid = Inl e1 \<and> GetLoginFlow d rid = Inl e2
            \<and> GetSettingsFlow d rid = Inr ar \<and> Type ar = TypeBrowser"
    and "FetchFromRequest d = Inl err"
  then show "validateFlow d rid =
                 ([CallGetRegistrationFlow rid, CallGetLoginFlow rid, CallGetSettingsFlow rid,
                   CallFetchFromRequest], SettingsFlow (Some ar), Some err)"
    using validateFlow_settings [OF assms, of d e1 e2 ar] by simp
next
  fix e1 e2 ar sess
  assume "GetRegistrationFlow d rid = Inl e1 \<and> GetLoginFlow d rid = Inl e2
            \<and> GetSettingsFlow d rid = Inr ar \<and> Type ar = TypeBrowser"
    and "FetchFromRequest d = Inr sess"
  then show "validateFlow d rid =
                 ([CallGetRegistrationFlow rid, CallGetLoginFlow rid, CallGetSettingsFlow rid,
                   CallFetchFromRequest, CallValid], SettingsFlow (Some ar), SettingsValid d ar sess)"
    using validateFlow_settings [OF assms, of d e1 e2 ar] by simp
next
  fix e1 e2 ar
  assume "GetRegistrationFlow d rid = Inl e1 \<and> GetLoginFlow d rid = Inl e2
            \<and> GetSettingsFlow d rid = Inr ar \<and> Type ar \<noteq> TypeBrowser"
  then show "validateFlow d rid =
              ([CallGetRegistrationFlow rid, CallGetLoginFlow rid, CallGetSettingsFlow rid],
               SettingsFlow (Some ar), Some ErrAPIFlowNotSupported)"
    using validateFlow_settings [OF assms, of d e1 e2 ar] by simp
next
  fix ar assume "GetRegistrationFlow d rid = Inr ar"
  from validateFlow_registration [OF assms this]
  show "CallFetchFromRequest \<notin> set (fst (validateFlow d rid))" by simp
next
  fix e1 ar assume "GetRegistrationFlow d rid = Inl e1 \<and> GetLoginFlow d rid = Inr ar"
  then show "CallFetchFromRequest \<notin> set (fst (validateFlow d rid))"
    using validateFlow_login [OF assms, of d e1 ar] by simp
qed


lemma settings7_simps:
  "Type settings7 = TypeBrowser" "IdentityID settings7 = 1"
  "Type settings7_api = TypeAPI"
  "Type login7 = TypeBrowser" "Type registration7 = TypeBrowser"
  "Type login7_api = TypeAPI" "Type registration7_api = TypeAPI"
  by (simp_all add: settings7_def settings7_api_def login7_def registration7_def
      login7_api_def registration7_api_def)

theorem validateFlow_settings_session_witness:
  "(7::uuid) \<noteq> 0
   \<and> GetSettingsFlow (deps_settings settings7 (Inl ErrNoActiveSessionFound)) 7 = Inr settings7
   \<and> Type settings7 = TypeBrowser
   \<and> validateFlow (deps_settings settings7 (Inl ErrNoActiveSessionFound)) 7 =
        ([CallGetRegistrationFlow 7, CallGetLoginFlow 7, CallGetSettingsFlow 7, CallFetchFromRequest],
         SettingsFlow (Some settings7), Some ErrNoActiveSessionFound)
   \<and> validateFlow (deps_settings settings7 (Inr \<lparr>session_IdentityID = 2\<rparr>)) 7 =
        ([CallGetRegistrationFlow 7, CallGetLoginFlow 7, CallGetSettingsFlow 7, CallFetchFromRequest,
          CallValid], SettingsFlow (Some settings7), Some ownerMismatch)
   \<and> Type settings7_api \<noteq> TypeBrowser
   \<and> validateFlow (deps_settings settings7_api (Inr \<lparr>session_IdentityID = 1\<rparr>)) 7 =
        ([CallGetRegistrationFlow 7, CallGetLoginFlow 7, CallGetSettingsFlow 7],
         SettingsFlow (Some settings7_api), Some ErrAPIFlowNotSupported)
   \<and> GetRegistrationFlow (deps_registration registration7) 7 = Inr registration7
   \<and> CallFetchFromRequest \<notin> set (fst (validateFlow (deps_registration registration7) 7))
   \<and> GetLoginFlow (deps_login login7) 7 = Inr login7
   \<and> CallFetchFromRequest \<notin> set (fst (validateFlow (deps_login login7) 7))"
proof -
  note t = validateFlow_settings_session [OF seven_nonzero]
  have a: "validateFlow (deps_settings settings7 (Inl ErrNoActiveSessionFound)) 7 =
        ([CallGetRegistrationFlow 7, CallGetLoginFlow 7, CallGetSettingsFlow 7, CallFetchFromRequest],
         SettingsFlow (Some settings7), Some ErrNoActiveSessionFound)"
    using t [of "deps_settings settings7 (Inl ErrNoActiveSessionFound)", THEN conjunct1,
             rule_format, of notFound notFound settings7, THEN conjunct1, rule_format,
             of ErrNoActiveSessionFound]
    by (simp add: deps_settings_simps settings7_simps)
  have b: "validateFlow (deps_settings settings7 (Inr \<lparr>session_IdentityID = 2\<rparr>)) 7 =
        ([CallGetRegistrationFlow 7, CallGetLoginFlow 7, CallGetSettingsFlow 7, CallFetchFromRequest,
          CallValid], SettingsFlow (Some settings7), Some ownerMismatch)"
    using t [of "deps_settings settings7 (Inr \<lparr>session_IdentityID = 2\<rparr>)", THEN conjunct1,
             rule_format, of notFound notFound settings7, THEN conjunct2, rule_format,
             of "\<lparr>session_IdentityID = 2\<rparr>"]
    by (simp add: deps_settings_simps settings7_simps)
  have c: "validateFlow (deps_settings settings7_api (Inr \<lparr>session_IdentityID = 1\<rparr>)) 7 =
        ([CallGetRegistrationFlow 7, CallGetLoginFlow 7, CallGetSettingsFlow 7],
         SettingsFlow (Some settings7_api), Some ErrAPIFlowNotSupported)"
    using t [of "deps_settings settings7_api (Inr \<lparr>session_IdentityID = 1\<rparr>)",
             THEN conjunct2, THEN conjunct1, rule_format, of notFound notFound settings7_api]
    by (simp add: deps_settings_simps settings7_simps)
  have r: "CallFetchFromRequest \<notin> set (fst (validateFlow (deps_registration registration7) 7))"
    using t [of "deps_registration registration7", THEN conjunct2, THEN conjunct2, THEN conjunct1, rule_format,
             OF deps_registration_simps(1)] .
  have l: "CallFetchFromRequest \<notin> set (fst (validateFlow (deps_login login7) 7))"
    using t [of "deps_login login7", THEN conjunct2, THEN conjunct2, THEN conjunct2, rule_format,
             of notFound login7]
    by (simp add: deps_login_simps)
  show ?thesis
    using a b c r l
    by (simp add: deps_settings_simps deps_registration_simps deps_login_simps settings7_simps)
qed

theorem validateFlow_settings_session_counterexample:
  "GetRegistrationFlow (deps_settings settings7_api (Inl ErrNoActiveSessionFound)) 7 = Inl notFound
   \<and> GetLoginFlow (deps_settings settings7_api (Inl ErrNoActiveSessionFound)) 7 = Inl notFound
   \<and> GetSettingsFlow (deps_settings settings7_api (Inl ErrNoActiveSessionFound)) 7 = Inr settings7_api
   \<and> FetchFromRequest (deps_settings settings7_api (Inl ErrNoActiveSessionFound)) =
        Inl ErrNoActiveSessionFound
   \<and> validateFlow (deps_settings settings7_api (Inl ErrNoActiveSessionFound)) 7 =
        ([CallGetRegistrationFlow 7, CallGetLoginFlow 7, CallGetSettingsFlow 7],
         SettingsFlow (Some settings7_api), Some ErrAPIFlowNotSupported)
   \<and> CallFetchFromRequest \<notin>
        set (fst (validateFlow (deps_settings settings7_api (Inl ErrNoActiveSessionFound)) 7))
   \<and> snd (snd (validateFlow (deps_settings settings7_api (Inl ErrNoActiveSessionFound)) 7)) \<noteq>
        Some ErrNoActiveSessionFound"
proof -
  have "validateFlow (deps_settings settings7_api (Inl ErrNoActiveSessionFound)) 7 =
        ([CallGetRegistrationFlow 7, CallGetLoginFlow 7, CallGetSettingsFlow 7],
         SettingsFlow (Some settings7_api), Some ErrAPIFlowNotSupported)"
    by (simp add: validateFlow_def deps_settings_simps settings7_simps)
  then show ?thesis
    by (simp add: deps_settings_simps)
qed

text \<open>
  C8. A flow that \<^verbatim>\<open>validateFlow\<close> finds, in whichever of the three stores, with an
  execution mode other than "browser" is returned with \<^verbatim>\<open>ErrAPIFlowNotSupported\<close>, and
  neither the flow's validity check nor the session fetch has been called by then.
\<close>

theorem validateFlow_api_flow_rejected:
  assumes "rid \<noteq> 0"
  shows "(\<forall>ar. GetRegistrationFlow d rid = Inr ar \<and> Type ar \<noteq> TypeBrowser \<longrightarrow>
            validateFlow d rid =
              ([CallGetRegistrationFlow rid], RegistrationFlow (Some ar), Some ErrAPIFlowNotSupported))
       \<and> (\<forall>e1 ar. GetRegistrationFlow d rid = Inl e1 \<and> GetLoginFlow d rid = Inr ar
            \<and> Type ar \<noteq> TypeBrowser \<longrightarrow>
            validateFlow d rid =
              ([CallGetRegistrationFlow rid, CallGetLoginFlow rid], LoginFlow (Some ar),
               Some ErrAPIFlowNotSupported))
       \<and> (\<forall>e1 e2 ar. GetRegistrationFlow d rid = Inl e1 \<and> GetLoginFlow d rid = Inl e2
            \<and> GetSettingsFlow d rid = Inr ar \<and> Type ar \<noteq> TypeBrowser \<longrightarrow>
            validateFlow d rid =
              ([CallGetRegistrationFlow rid, CallGetLoginFlow rid, CallGetSettingsFlow rid],
               SettingsFlow (Some ar), Some ErrAPIFlowNotSupported))
       \<and> (\<forall>t. flow_type_of (fst (snd (validateFlow d rid))) = Some t \<and> t \<noteq> TypeBrowser \<longrightarrow>
            snd (snd (validateFlow d rid)) = Some ErrAPIFlowNotSupported
          \<and> CallValid \<notin> set (fst (validateFlow d rid))
          \<and> CallFetchFromRequest \<notin> set (fst (validateFlow d rid)))"
proof (intro conjI allI impI)
  fix ar assume "GetRegistrationFlow d rid = Inr ar \<and> Type ar \<noteq> TypeBrowser"
  then show "validateFlow d rid =
      ([CallGetRegistrationFlow rid], RegistrationFlow (Some ar), Some ErrAPIFlowNotSupported)"
    using validateFlow_registration [OF assms, of d ar] by simp
next
  fix e1 ar
  assume "GetRegistrationFlow d rid = Inl e1 \<and> GetLoginFlow d rid = Inr ar \<and> Type ar \<noteq> TypeBrowser"
  then show "validateFlow d rid =
      ([CallGetRegistrationFlow rid, CallGetLoginFlow rid], LoginFlow (Some ar),
       Some ErrAPIFlowNotSupported)"
    using validateFlow_login [OF assms, of d e1 ar] by simp
next
  fix e1 e2 ar
  assume "GetRegistrationFlow d rid = Inl e1 \<and> GetLoginFlow d rid = Inl e2
            \<and> GetSettingsFlow d rid = Inr ar \<and> Type ar \<noteq> TypeBrowser"
  then show "validateFlow d rid =
      ([CallGetRegistrationFlow rid, CallGetLoginFlow rid, CallGetSettingsFlow rid],
       SettingsFlow (Some ar), Some ErrAPIFlowNotSupported)"
    using validateFlow_settings [OF assms, of d e1 e2 ar] by simp
next
  fix t
  assume h: "flow_type_of (fst (snd (validateFlow d rid))) = Some t \<and> t \<noteq> TypeBrowser"
  have "snd (snd (validateFlow d rid)) = Some ErrAPIFlowNotSupported
          \<and> CallValid \<notin> set (fst (validateFlow d rid))
          \<and> CallFetchFromRequest \<notin> set (fst (validateFlow d rid))"
  proof (cases "GetRegistrationFlow d rid")
    case (Inr ar)
    from validateFlow_registration [OF assms Inr] h show ?thesis
      by (auto split: if_splits)
  next
    case e1: (Inl e1)
    show ?thesis
    proof (cases "GetLoginFlow d rid")
      case (Inr ar)
      from validateFlow_login [OF assms e1 Inr] h show ?thesis
        by (auto split: if_splits)
    next
      case e2: (Inl e2)
      show ?thesis
      proof (cases "GetSettingsFlow d rid")
        case (Inr ar)
        from validateFlow_settings [OF assms e1 e2 Inr] h show ?thesis
          by (auto split: if_splits sum.splits)
      next
        case (Inl e3)
        from validateFlow_none [OF assms e1 e2 Inl] h show ?thesis
          by simp
      qed
    qed
  qed
  then show "snd (snd (validateFlow d rid)) = Some ErrAPIFlowNotSupported"
    and "CallValid \<notin> set (fst (validateFlow d rid))"
    and "CallFetchFromRequest \<notin> set (fst (validateFlow d rid))"
    by simp_all
qed


theorem validateFlow_api_flow_rejected_witness:
  "(7::uuid) \<noteq> 0
   \<and> GetRegistrationFlow (deps_registration registration7_api) 7 = Inr registration7_api
   \<and> Type registration7_api \<noteq> TypeBrowser
   \<and> validateFlow (deps_registration registration7_api) 7 =
        ([CallGetRegistrationFlow 7], RegistrationFlow (Some registration7_api),
         Some ErrAPIFlowNotSupported)
   \<and> GetLoginFlow (deps_login login7_api) 7 = Inr login7_api
   \<and> Type login7_api \<noteq> TypeBrowser
   \<and> validateFlow (deps_login login7_api) 7 =
        ([CallGetRegistrationFlow 7, CallGetLoginFlow 7], LoginFlow (Some login7_api),
         Some ErrAPIFlowNotSupported)
   \<and> GetSettingsFlow (deps_settings settings7_api (Inr \<lparr>session_IdentityID = 1\<rparr>)) 7 =
        Inr settings7_api
   \<and> Type settings7_api \<noteq> TypeBrowser
   \<and> validateFlow (deps_settings settings7_api (Inr \<lparr>session_IdentityID = 1\<rparr>)) 7 =
        ([CallGetRegistrationFlow 7, CallGetLoginFlow 7, CallGetSettingsFlow 7],
         SettingsFlow (Some settings7_api), Some ErrAPIFlowNotSupported)
   \<and> flow_type_of (fst (snd (validateFlow (deps_login login7_api) 7))) = Some TypeAPI
   \<and> CallValid \<notin> set (fst (validateFlow (deps_login login7_api) 7))"
proof -
  note t = validateFlow_api_flow_rejected [OF seven_nonzero]
  have r: "validateFlow (deps_registration registration7_api) 7 =
        ([CallGetRegistrationFlow 7], RegistrationFlow (Some registration7_api),
         Some ErrAPIFlowNotSupported)"
    using t [of "deps_registration registration7_api", THEN conjunct1, rule_format,
             of registration7_api]
    by (simp add: deps_registration_simps settings7_simps)
  have l: "validateFlow (deps_login login7_api) 7 =
        ([CallGetRegistrationFlow 7, CallGetLoginFlow 7], LoginFlow (Some login7_api),
         Some ErrAPIFlowNotSupported)"
    using t [of "deps_login login7_api", THEN conjunct2, THEN conjunct1, rule_format,
             of notFound login7_api]
    by (simp add: deps_login_simps settings7_simps)
  have s: "validateFlow (deps_settings settings7_api (Inr \<lparr>session_IdentityID = 1\<rparr>)) 7 =
        ([CallGetRegistrationFlow 7, CallGetLoginFlow 7, CallGetSettingsFlow 7],
         SettingsFlow (Some settings7_api), Some ErrAPIFlowNotSupported)"
    using t [of "deps_settings settings7_api (Inr \<lparr>session_IdentityID = 1\<rparr>)",
             THEN conjunct2, THEN conjunct2, THEN conjunct1, rule_format,
             of notFound notFound settings7_api]
    by (simp add: deps_settings_simps settings7_simps)
  have ty: "flow_type_of (fst (snd (validateFlow (deps_login login7_api) 7))) = Some TypeAPI"
    by (simp add: l settings7_simps)
  have v: "CallValid \<notin> set (fst (validateFlow (deps_login login7_api) 7))"
    using t [of "deps_login login7_api", THEN conjunct2, THEN conjunct2, THEN conjunct2,
             rule_format, of TypeAPI] ty
    by simp
  show ?thesis
    using r l s ty v
    by (simp add: deps_registration_simps deps_login_simps deps_settings_simps settings7_simps)
qed

section \<open>An empty list of providers\<close>

lemma conf_empty_providers: "SAMLProviders conf_empty = []"
  by (simp add: conf_empty_def)

text \<open>
  C9. With a configuration that decodes to an empty list of providers, \<^verbatim>\<open>Strategy.provider\<close>
  and \<^verbatim>\<open>instantiateMiddleware\<close> do not return an error: indexing the list panics, and the
  package variable is left as it was.
\<close>

theorem empty_SAMLProviders_panic:
  assumes "SAMLProviders c = []"
  shows "provider (Inr c) parse mkProvider = Panicked IndexOutOfRange
       \<and> (decodeConfig w = Inr c \<longrightarrow>
            buildMiddleware w = Panicked IndexOutOfRange
          \<and> instantiateMiddleware w g = (g, Panicked IndexOutOfRange))"
  using assms
  by (simp add: provider_def Config_def or_return_def buildMiddleware_def
      instantiateMiddleware_def)

theorem empty_SAMLProviders_panic_witness:
  "SAMLProviders conf_empty = []
   \<and> provider (Inr conf_empty) parse_any (\<lambda>c m s. Inr (url_String s)) = Panicked IndexOutOfRange
   \<and> decodeConfig (world_ok conf_empty) = Inr conf_empty
   \<and> buildMiddleware (world_ok conf_empty) = Panicked IndexOutOfRange
   \<and> instantiateMiddleware (world_ok conf_empty) None = (None, Panicked IndexOutOfRange)"
proof -
  have d: "decodeConfig (world_ok conf_empty) = Inr conf_empty"
    by (simp add: world_ok_def)
  show ?thesis
    using empty_SAMLProviders_panic [OF conf_empty_providers,
        of parse_any "\<lambda>c m s. Inr (url_String s)" "world_ok conf_empty" None] d
    by (simp add: conf_empty_providers)
qed

section \<open>The ACS handler after a failed parse\<close>

text \<open>
  C10. When \<^verbatim>\<open>ParseResponse\<close> fails, \<^verbatim>\<open>serveAcs\<close> calls the middleware's \<^verbatim>\<open>OnError\<close> and
  then still calls \<^verbatim>\<open>CreateSessionFromAssertion\<close>, with a nil assertion.
\<close>

theorem serveAcs_error_goes_on:
  assumes "ParseResponse m (possibleRequestIDs m) = Inl err"
  shows "serveAcs m = [OnError (Some err), CreateSessionFromAssertion None (DefaultRedirectURI m)]"
  using assms by (simp add: serveAcs_def)

theorem serveAcs_error_goes_on_witness:
  "ParseResponse middleware_rejecting (possibleRequestIDs middleware_rejecting) =
     Inl (OtherError ''invalid response'')
   \<and> serveAcs middleware_rejecting =
       [OnError (Some (OtherError ''invalid response'')), CreateSessionFromAssertion None ''/'']"
proof -
  have p: "ParseResponse middleware_rejecting (possibleRequestIDs middleware_rejecting) =
     Inl (OtherError ''invalid response'')"
    by (simp add: middleware_rejecting_def)
  show ?thesis
    using serveAcs_error_goes_on [OF p] p by (simp add: middleware_rejecting_def)
qed


section \<open>The failure branch of the callback\<close>

lemma handleCallback_failure_branch:
  assumes "ParseResponse m (possibleRequestIDs m) = Inr a"
    and "provider decoded parse mkProvider = Returned (Inr prov)"
    and "Claims prov (range_statements (AttributeStatements a) Map.empty) = Inr claims"
    and "processLoginOrRegister prov claims = (ff, Some err)"
  shows "handleCallback (Some m) decoded parse mkProvider Claims processLoginOrRegister =
     (case ff of
        Some f \<Rightarrow> ([forwardError f err], Returned ())
      | None \<Rightarrow> ([], Panicked NilPointerDereference))"
  using assms
  by (simp add: handleCallback_def getAttributesFromAssertion_def split: option.split)

text \<open>
  C1. When the assertion, the provider and the claims are fine and
  \<^verbatim>\<open>processLoginOrRegister\<close> returns an error with a nil flow pointer, \<^verbatim>\<open>handleCallback\<close>
  forwards nothing: it panics on the nil pointer it dereferences for the call of
  \<^verbatim>\<open>forwardError\<close>. (With a flow pointer that is not nil the error is forwarded once, as
  \<open>handleCallback_failure_branch\<close> shows.)
\<close>

theorem handleCallback_nil_flow_panics:
  assumes "ParseResponse m (possibleRequestIDs m) = Inr a"
    and "provider decoded parse mkProvider = Returned (Inr prov)"
    and "Claims prov (range_statements (AttributeStatements a) Map.empty) = Inr claims"
    and "processLoginOrRegister prov claims = (None, Some err)"
  shows "handleCallback (Some m) decoded parse mkProvider Claims processLoginOrRegister =
     ([], Panicked NilPointerDereference)"
  using handleCallback_failure_branch
    [of m a decoded parse mkProvider prov Claims claims processLoginOrRegister None err] assms
  by simp

lemma provider_conf1:
  "provider (Inr conf1) parse_any (\<lambda>c m s. Inr (url_String s)) =
     Returned (Inr ''https://idp.example/sso'')"
  by (simp add: provider_def Config_def or_return_def conf1_def provider1_def parse_any_def)

theorem handleCallback_nil_flow_panics_witness:
  "handleCallback (Some (middleware_ok assertion1)) (Inr conf1) parse_any
     (\<lambda>c m s. Inr (url_String s)) (\<lambda>prov attrs. Inr (attrs ''uid''))
     (\<lambda>prov claims. (None, Some (OtherError ''an account with this identifier exists already'')))
   = ([], Panicked NilPointerDereference)"
proof -
  have p: "ParseResponse (middleware_ok assertion1) (possibleRequestIDs (middleware_ok assertion1)) =
      Inr assertion1"
    by (simp add: middleware_ok_def)
  show ?thesis
    using handleCallback_nil_flow_panics
      [of "middleware_ok assertion1" assertion1 "Inr conf1" parse_any
          "\<lambda>c m s. Inr (url_String s)" "''https://idp.example/sso''"
          "\<lambda>prov attrs. Inr (attrs ''uid'')" _
          "\<lambda>prov claims. (None, Some (OtherError ''an account with this identifier exists already''))"
          "OtherError ''an account with this identifier exists already''"]
      p provider_conf1
    by simp
qed

section \<open>SSO initiation\<close>

text \<open>
  C3. A request with an active session: the handler with the lazily built middleware
  forwards a nil error to the error manager and redirects nowhere (its redirect to the
  default return URL answers a session error other than "no active session"); the handler
  of \<^verbatim>\<open>flow/saml/handler.go\<close> redirects and then calls \<^verbatim>\<open>OnError\<close>, and does the same after it
  has started the SSO flow for a request with no session: two responses for one request.
\<close>

theorem loginWithIdp_active_session:
  "loginWithIdp w (Inr sess) (Some m) = (Some m, [Forward None], Returned ())
   \<and> loginWithIdp w (Inl (OtherError msg)) (Some m) =
       (Some m, [Redirect (url_Path (SelfServiceBrowserDefaultReturnTo w))], Returned ())
   \<and> loginWithIdp_handler u (Inr sess) = [Redirect (url_Path u), OnError None]
   \<and> loginWithIdp_handler u (Inl ErrNoActiveSessionFound) =
       [HandleStartAuthFlow, OnError (Some ErrNoActiveSessionFound)]"
  by (simp add: loginWithIdp_def loginWithIdp_handler_def)

section \<open>Requests that race for the middleware\<close>

lemma Replace1_paths:
  "Replace1 ''file://'' ''file:///etc/saml/sp.crt'' = ''/etc/saml/sp.crt''"
  "Replace1 ''file://'' ''file:///etc/saml/sp.key'' = ''/etc/saml/sp.key''"
  by simp_all

lemma overwriteRoutes_world_ok:
  "overwriteRoutes (world_ok c) (middleware_ok assertion0) = Returned (Inr middleware1)"
  by (simp add: overwriteRoutes_def world_ok_def url0_def or_return_def parse_any_def
      RouteSamlAcs_def RouteSamlMetadata_def UnspecifiedNameIDFormat_def middleware1_def Let_def)

lemma idpMetadataOf_world_ok:
  "idpMetadataOf (world_ok c) provider1 =
     Returned (Inr (FetchedMetadata ''https://idp.example/metadata''))"
  by (simp add: idpMetadataOf_def info_def provider1_def world_ok_def or_return_def parse_any_def)

lemma world_ok_simps:
  "decodeConfig (world_ok c) = Inr c"
  "LoadX509KeyPair (world_ok c) cert key =
     Inr \<lparr>Certificate = [''DER''], PrivateKey = RSAPrivateKey ''RSA'', Leaf = None\<rparr>"
  "ParseCertificate (world_ok c) der = Inr \<lparr>DER = der\<rparr>"
  "urlParse (world_ok c) = parse_any"
  "samlspNew (world_ok c) opts = Inr (middleware_ok assertion0)"
  by (simp_all add: world_ok_def)

lemma conf1_providers:
  "SAMLProviders conf1 \<noteq> []" "last (SAMLProviders conf1) = provider1"
  by (simp_all add: conf1_def)

lemma buildMiddleware_world_ok:
  "buildMiddleware (world_ok conf1) = Returned (Inr middleware1)"
  by (simp add: buildMiddleware_def world_ok_simps conf1_providers idpMetadataOf_world_ok
      overwriteRoutes_world_ok or_return_def parse_any_def Let_def)

text \<open>
  One request with no session, run alone on the handler: the middleware is built, stored in
  the package variable and used to start the SSO flow.
\<close>

lemma loginWithIdp_first_request:
  "loginWithIdp (world_ok conf1) (Inl ErrNoActiveSessionFound) None =
     (Some middleware1, [HandleStartAuthFlow], Returned ())"
  by (simp add: loginWithIdp_def instantiateMiddleware_def buildMiddleware_world_ok)

text \<open>
  C2. Two requests that both test the package variable before either has assigned it both
  build a middleware, and each then uses a different one; two requests that run one after
  the other build one and share it.
\<close>

theorem racing_requests_build_twice:
  "run (world_ok conf1) [0, 1, 0, 1, 0, 0, 1, 1] (shared0, [AtCheck, AtCheck]) =
     (\<lparr>samlMiddleware_var = Some 1, built = [middleware1, middleware1]\<rparr>,
      [Used 0, Used 1])
   \<and> run (world_ok conf1) [0, 0, 0, 0, 1, 1] (shared0, [AtCheck, AtCheck]) =
     (\<lparr>samlMiddleware_var = Some 0, built = [middleware1]\<rparr>, [Used 0, Used 0])"
  by (simp add: shared0_def buildMiddleware_world_ok)


section \<open>The registration flow after an error\<close>

lemma container_reset:
  "(c::container)\<lparr>Nodes := ns, CSRF := token\<rparr> = \<lparr>Nodes = ns, CSRF = token\<rparr>"
  "(c::container)\<lparr>CSRF := token, Nodes := ns\<rparr> = \<lparr>Nodes = ns, CSRF = token\<rparr>"
  by simp_all

lemma populate_provider_node:
  "populate t prefix g (ProviderNode p msg) = ProviderNode p msg"
  by simp

lemma populate_schema_node:
  "populate t ''traits'' OpenIDConnectGroup (InputNode OpenIDConnectGroup q []) =
     InputNode OpenIDConnectGroup q
       (case map_of (map (\<lambda>(k, x). (''traits.'' @ k, x)) t) q of None \<Rightarrow> [] | Some x \<Rightarrow> x)"
  by (simp split: option.split)

text \<open>
  C6, as amended. For a registration flow, \<^verbatim>\<open>handleError\<close> leaves none of the nodes the UI
  had, stores the CSRF token the generator gave for the request, and puts exactly one
  provider "continue" node first. With no staged traits that node is the only one and the
  error passed in is returned. With staged traits and a schema that loads, one input node
  per trait field of the schema follows, holding the staged value of that field when there
  is one, and the error passed in is returned. With staged traits and a schema that fails
  to load, the provider node stays the only one and the schema's error is returned.
\<close>

theorem handleError_registration:
  "(traits = None \<longrightarrow>
      handleError token schema (RegistrationFlow (Some rf)) p traits err =
        Returned (RegistrationFlow (Some (rf\<lparr>UI :=
          \<lparr>Nodes = [ProviderNode p InfoRegistrationContinue], CSRF = token\<rparr>\<rparr>)), err))
   \<and> (\<forall>t paths. traits = Some t \<and> schema = Inr paths \<longrightarrow>
      handleError token schema (RegistrationFlow (Some rf)) p traits err =
        Returned (RegistrationFlow (Some (rf\<lparr>UI :=
          \<lparr>Nodes = ProviderNode p InfoRegistrationContinue #
              map (\<lambda>q. InputNode OpenIDConnectGroup q
                     (case map_of (map (\<lambda>(k, x). (''traits.'' @ k, x)) t) q of
                        None \<Rightarrow> [] | Some x \<Rightarrow> x)) paths,
           CSRF = token\<rparr>\<rparr>)), err))
   \<and> (\<forall>t e. traits = Some t \<and> schema = Inl e \<longrightarrow>
      handleError token schema (RegistrationFlow (Some rf)) p traits err =
        Returned (RegistrationFlow (Some (rf\<lparr>UI :=
          \<lparr>Nodes = [ProviderNode p InfoRegistrationContinue], CSRF = token\<rparr>\<rparr>)), Some e))"
proof (intro conjI allI impI)
  assume "traits = None"
  then show "handleError token schema (RegistrationFlow (Some rf)) p traits err =
        Returned (RegistrationFlow (Some (rf\<lparr>UI :=
          \<lparr>Nodes = [ProviderNode p InfoRegistrationContinue], CSRF = token\<rparr>\<rparr>)), err)"
    by (simp add: SetCSRF_def AddProvider_def)
next
  fix t paths assume "traits = Some t \<and> schema = Inr paths"
  then show "handleError token schema (RegistrationFlow (Some rf)) p traits err =
        Returned (RegistrationFlow (Some (rf\<lparr>UI :=
          \<lparr>Nodes = ProviderNode p InfoRegistrationContinue #
              map (\<lambda>q. InputNode OpenIDConnectGroup q
                     (case map_of (map (\<lambda>(k, x). (''traits.'' @ k, x)) t) q of
                        None \<Rightarrow> [] | Some x \<Rightarrow> x)) paths,
           CSRF = token\<rparr>\<rparr>)), err)"
    by (simp add: SetCSRF_def AddProvider_def NodesFromJSONSchema_def
        UpdateNodeValuesFromJSON_def populate_schema_node populate_provider_node comp_def
        container_reset del: populate.simps)
next
  fix t e assume "traits = Some t \<and> schema = Inl e"
  then show "handleError token schema (RegistrationFlow (Some rf)) p traits err =
        Returned (RegistrationFlow (Some (rf\<lparr>UI :=
          \<lparr>Nodes = [ProviderNode p InfoRegistrationContinue], CSRF = token\<rparr>\<rparr>)), Some e)"
    by (simp add: SetCSRF_def AddProvider_def NodesFromJSONSchema_def)
qed

theorem handleError_registration_witness:
  "handleError ''token-2'' (Inr [''traits.email'', ''traits.name''])
     (RegistrationFlow (Some registration7)) ''idp'' (Some [(''email'', ''new@example.com'')])
     (Some (OtherError ''no identity for this subject'')) =
     Returned (RegistrationFlow (Some (registration7\<lparr>UI :=
        \<lparr>Nodes = [ProviderNode ''idp'' InfoRegistrationContinue,
                   InputNode OpenIDConnectGroup ''traits.email'' ''new@example.com'',
                   InputNode OpenIDConnectGroup ''traits.name'' []],
         CSRF = ''token-2''\<rparr>\<rparr>)), Some (OtherError ''no identity for this subject''))
   \<and> handleError ''token-2'' (Inr [''traits.email'', ''traits.name''])
     (RegistrationFlow (Some registration7)) ''idp'' None
     (Some (OtherError ''no identity for this subject'')) =
     Returned (RegistrationFlow (Some (registration7\<lparr>UI :=
        \<lparr>Nodes = [ProviderNode ''idp'' InfoRegistrationContinue], CSRF = ''token-2''\<rparr>\<rparr>)),
        Some (OtherError ''no identity for this subject''))
   \<and> handleError ''token-2'' (Inl (OtherError ''schema unavailable''))
     (RegistrationFlow (Some registration7)) ''idp'' (Some [(''email'', ''new@example.com'')])
     (Some (OtherError ''no identity for this subject'')) =
     Returned (RegistrationFlow (Some (registration7\<lparr>UI :=
        \<lparr>Nodes = [ProviderNode ''idp'' InfoRegistrationContinue], CSRF = ''token-2''\<rparr>\<rparr>)),
        Some (OtherError ''schema unavailable''))"
proof -
  have a: "handleError ''token-2'' (Inr [''traits.email'', ''traits.name''])
     (RegistrationFlow (Some registration7)) ''idp'' (Some [(''email'', ''new@example.com'')])
     (Some (OtherError ''no identity for this subject'')) =
     Returned (RegistrationFlow (Some (registration7\<lparr>UI :=
        \<lparr>Nodes = [ProviderNode ''idp'' InfoRegistrationContinue,
                   InputNode OpenIDConnectGroup ''traits.email'' ''new@example.com'',
                   InputNode OpenIDConnectGroup ''traits.name'' []],
         CSRF = ''token-2''\<rparr>\<rparr>)), Some (OtherError ''no identity for this subject''))"
    using handleError_registration [of "Some [(''email'', ''new@example.com'')]" "''token-2''"
        "Inr [''traits.email'', ''traits.name'']" registration7 "''idp''"
        "Some (OtherError ''no identity for this subject'')",
        THEN conjunct2, THEN conjunct1, rule_format,
        of "[(''email'', ''new@example.com'')]" "[''traits.email'', ''traits.name'']"]
    by simp
  have b: "handleError ''token-2'' (Inr [''traits.email'', ''traits.name''])
     (RegistrationFlow (Some registration7)) ''idp'' None
     (Some (OtherError ''no identity for this subject'')) =
     Returned (RegistrationFlow (Some (registration7\<lparr>UI :=
        \<lparr>Nodes = [ProviderNode ''idp'' InfoRegistrationContinue], CSRF = ''token-2''\<rparr>\<rparr>)),
        Some (OtherError ''no identity for this subject''))"
    using handleError_registration [of None "''token-2''"
        "Inr [''traits.email'', ''traits.name'']" registration7 "''idp''"
        "Some (OtherError ''no identity for this subject'')", THEN conjunct1]
    by simp
  have c: "handleError ''token-2'' (Inl (OtherError ''schema unavailable''))
     (RegistrationFlow (Some registration7)) ''idp'' (Some [(''email'', ''new@example.com'')])
     (Some (OtherError ''no identity for this subject'')) =
     Returned (RegistrationFlow (Some (registration7\<lparr>UI :=
        \<lparr>Nodes = [ProviderNode ''idp'' InfoRegistrationContinue], CSRF = ''token-2''\<rparr>\<rparr>)),
        Some (OtherError ''schema unavailable''))"
    using handleError_registration [of "Some [(''email'', ''new@example.com'')]" "''token-2''"
        "Inl (OtherError ''schema unavailable'')" registration7 "''idp''"
        "Some (OtherError ''no identity for this subject'')",
        THEN conjunct2, THEN conjunct2, rule_format,
        of "[(''email'', ''new@example.com'')]" "OtherError ''schema unavailable''"]
    by simp
  show ?thesis
    using a b c by (intro conjI)
qed

theorem handleError_registration_counterexample:
  "CSRF (UI registration7) = ''token-1''
   \<and> handleError ''token-1'' (Inl (OtherError ''schema unavailable''))
     (RegistrationFlow (Some registration7)) ''idp'' (Some [(''email'', ''new@example.com'')])
     (Some (OtherError ''no identity for this subject'')) =
     Returned (RegistrationFlow (Some (registration7\<lparr>UI :=
        \<lparr>Nodes = [ProviderNode ''idp'' InfoRegistrationContinue], CSRF = ''token-1''\<rparr>\<rparr>)),
        Some (OtherError ''schema unavailable''))"
  by (simp add: registration7_def SetCSRF_def AddProvider_def NodesFromJSONSchema_def)

end
